theory Spec2Isabelle
  imports Complex_Main
begin

section \<open>Values, keyword arguments and validation errors\<close>

text \<open>
  The branch classes of \<^verbatim>\<open>r2x/models/branch.py\<close> are declarative models: every
  class lists its fields, each with a type, an optional default and an optional bound
  (\<^verbatim>\<open>Field(ge=0)\<close>, \<^verbatim>\<open>Field(le=0)\<close>, \<^verbatim>\<open>NonNegativeFloat\<close>,
  \<^verbatim>\<open>NonPositiveFloat\<close>). Calling a class with keyword arguments validates every
  field in declaration order (inherited fields first), collects the failures of all
  fields, and either raises them together or returns the instance.

  A keyword argument is either left out of the call or passed; a nullable field may be
  passed Python's \<^verbatim>\<open>None\<close>, which is the value \<open>Given None\<close>. The numbers of the
  source are floats; they are modelled as reals, so the sign tests are the exact order
  tests on the represented number (NaN and the infinities are outside the model).
  Arguments of the wrong Python type are excluded by the types of the model.
\<close>

datatype 'a arg = Omitted | Given 'a

text \<open>
  Every failure of a construction is reported by the validation layer as one entry per
  offending field. The entries are named after the error taxonomy of the specification:
  a required field that was left out (reported as \<^verbatim>\<open>missing\<close>), a lower or upper
  bound of zero that is violated (reported as \<^verbatim>\<open>greater_than_equal\<close> or
  \<^verbatim>\<open>less_than_equal\<close>), a range whose ends are swapped, and a name that is empty.
  An entry about one field carries the name of the field.
\<close>

datatype error =
    MissingFieldError string
  | SignConstraintError string
  | RangeViolationError
  | EmptyNameError string

text \<open>
  A quantity of \<^verbatim>\<open>r2x.units\<close> is a magnitude tagged with a unit;
  \<^verbatim>\<open>ActivePower(100, "MW")\<close> and \<^verbatim>\<open>Percentage(10, "%")\<close> build one.
  A bound on a quantity field compares the quantity with zero, which is a test of the
  sign of its magnitude.
\<close>

record Quantity =
  magnitude :: real
  units :: string

definition ActivePower :: "real \<Rightarrow> string \<Rightarrow> Quantity" where
  "ActivePower m u = \<lparr>magnitude = m, units = u\<rparr>"

definition Percentage :: "real \<Rightarrow> string \<Rightarrow> Quantity" where
  "Percentage m u = \<lparr>magnitude = m, units = u\<rparr>"

record MinMax =
  min_v :: real
  max_v :: real

text \<open>
  Modelled from the spec: the constructor of \<^verbatim>\<open>MinMax\<close>, which lives in
  \<^verbatim>\<open>r2x.models.core\<close> and is only imported by the branch module. The specification
  (sections 3, 4.1 and 7) has it build the pair from \<open>(min, max)\<close> and reject
  \<open>min > max\<close> with a range violation.
\<close>

definition MinMax_new :: "real \<Rightarrow> real \<Rightarrow> error list + MinMax" where
  "MinMax_new lo hi =
     (if lo > hi then Inl [RangeViolationError] else Inr \<lparr>min_v = lo, max_v = hi\<rparr>)"

subsection \<open>Field validators\<close>

text \<open>A field without a default must be passed.\<close>

definition required :: "string \<Rightarrow> 'a arg \<Rightarrow> error list" where
  "required f a = (case a of Omitted \<Rightarrow> [MissingFieldError f] | Given v \<Rightarrow> [])"

text \<open>A field with a default takes it when the argument is left out.\<close>

definition with_default :: "'a \<Rightarrow> 'a arg \<Rightarrow> 'a" where
  "with_default d a = (case a of Omitted \<Rightarrow> d | Given v \<Rightarrow> v)"

text \<open>
  The bound of a field is tested on the value that was passed. The defaults of this
  module (\<^verbatim>\<open>None\<close> on nullable fields, \<open>0\<close> on fields bounded below by zero)
  satisfy the bounds of their fields, so a default never reports a failure.
\<close>

definition validate_given :: "('a \<Rightarrow> error list) \<Rightarrow> 'a arg \<Rightarrow> error list" where
  "validate_given chk a = (case a of Omitted \<Rightarrow> [] | Given v \<Rightarrow> chk v)"

text \<open>A nullable field (\<^verbatim>\<open>T | None\<close>) accepts \<^verbatim>\<open>None\<close> without a further test.\<close>

definition nullable :: "('a \<Rightarrow> error list) \<Rightarrow> 'a option \<Rightarrow> error list" where
  "nullable chk v = (case v of None \<Rightarrow> [] | Some x \<Rightarrow> chk x)"

definition ge0 :: "string \<Rightarrow> real \<Rightarrow> error list" where
  "ge0 f v = (if 0 \<le> v then [] else [SignConstraintError f])"

definition le0 :: "string \<Rightarrow> real \<Rightarrow> error list" where
  "le0 f v = (if v \<le> 0 then [] else [SignConstraintError f])"

text \<open>\<^verbatim>\<open>Annotated[ActivePower, Field(ge=0)] | None = None\<close> and its mirror image.\<close>

definition quantity_ge0 :: "string \<Rightarrow> Quantity option arg \<Rightarrow> error list" where
  "quantity_ge0 f a = validate_given (nullable (\<lambda>q. ge0 f (magnitude q))) a"

definition quantity_le0 :: "string \<Rightarrow> Quantity option arg \<Rightarrow> error list" where
  "quantity_le0 f a = validate_given (nullable (\<lambda>q. le0 f (magnitude q))) a"

text \<open>\<^verbatim>\<open>Annotated[NonNegativeFloat, ...] | None\<close> and \<^verbatim>\<open>Annotated[NonPositiveFloat, ...] | None\<close>.\<close>

definition float_ge0 :: "string \<Rightarrow> real option arg \<Rightarrow> error list" where
  "float_ge0 f a = validate_given (nullable (ge0 f)) a"

definition float_le0 :: "string \<Rightarrow> real option arg \<Rightarrow> error list" where
  "float_le0 f a = validate_given (nullable (le0 f)) a"

text \<open>
  The result of a construction: the collected failures when there is one, the instance
  otherwise. The instance is \<open>None\<close> exactly when a required argument was left out, and
  then the failures are not empty.
\<close>

definition finish_validation :: "error list \<Rightarrow> 'a option \<Rightarrow> error list + 'a" where
  "finish_validation es inst =
     (case es of
        [] \<Rightarrow> (case inst of Some x \<Rightarrow> Inr x | None \<Rightarrow> Inl es)
      | e # es' \<Rightarrow> Inl es)"

section \<open>The branch classes\<close>

subsection \<open>Branch\<close>

text \<open>
  \<^verbatim>\<open>Branch\<close> adds no field to its base class \<^verbatim>\<open>Device\<close>, whose only field is
  the name. For every class, the record \<open>_kw\<close> holds the keyword arguments of a call and
  the record named after the class is the instance.
\<close>

record Branch_kw =
  kw_name :: "string arg"

record Branch =
  name :: string

text \<open>
  Modelled from the spec: the validation of the base class \<^verbatim>\<open>Device\<close> of
  \<^verbatim>\<open>r2x.models.core\<close>, which the branch module only imports. The specification
  (sections 3 and 4.3) makes \<^verbatim>\<open>name\<close> a required, non-empty string and asks for
  nothing else.
\<close>

definition Device_errors :: "'z Branch_kw_scheme \<Rightarrow> error list" where
  "Device_errors kw =
     required ''name'' (kw_name kw) @
     validate_given (\<lambda>n. if n = [] then [EmptyNameError ''name''] else []) (kw_name kw)"

definition Branch_errors :: "'z Branch_kw_scheme \<Rightarrow> error list" where
  "Branch_errors kw = Device_errors kw"

definition Branch_fields :: "'z Branch_kw_scheme \<Rightarrow> Branch option" where
  "Branch_fields kw =
     (case kw_name kw of Given n \<Rightarrow> Some \<lparr>name = n\<rparr> | Omitted \<Rightarrow> None)"

definition Branch_new :: "Branch_kw \<Rightarrow> error list + Branch" where
  "Branch_new kw = finish_validation (Branch_errors kw) (Branch_fields kw)"

text \<open>
  Every example factory is one call of its class; the keyword arguments of the call are
  defined first, as the source writes them, and the factory passes them on.
\<close>

definition Branch_example_kwargs :: "Branch_kw" where
  "Branch_example_kwargs = \<lparr>kw_name = Given ''ExampleBranch''\<rparr>"

definition Branch_example :: "error list + Branch" where
  "Branch_example = Branch_new Branch_example_kwargs"

subsection \<open>ACBranch and its subclasses\<close>

record 'acbus ACBranch_kw = Branch_kw +
  kw_from_bus :: "'acbus arg"
  kw_to_bus :: "'acbus arg"
  kw_r :: "real option arg"
  kw_x :: "real option arg"
  kw_primary_shunt :: "real option arg"
  kw_rating :: "Quantity option arg"
  kw_active_power_flow :: "Quantity option arg"
  kw_reactive_power_flow :: "Quantity option arg"
  kw_angle_limits :: "MinMax option arg"

record 'acbus ACBranch = Branch +
  from_bus :: 'acbus
  to_bus :: 'acbus
  branch_r :: "real option"
  branch_x :: "real option"
  primary_shunt :: "real option"
  rating :: "Quantity option"
  active_power_flow :: "Quantity option"
  reactive_power_flow :: "Quantity option"
  angle_limits :: "MinMax option"

definition ACBranch_errors :: "('acbus, 'z) ACBranch_kw_scheme \<Rightarrow> error list" where
  "ACBranch_errors kw =
     Branch_errors kw @
     required ''from_bus'' (ACBranch_kw.kw_from_bus kw) @
     required ''to_bus'' (ACBranch_kw.kw_to_bus kw) @
     quantity_ge0 ''rating'' (kw_rating kw) @
     quantity_ge0 ''active_power_flow'' (ACBranch_kw.kw_active_power_flow kw) @
     quantity_ge0 ''reactive_power_flow'' (kw_reactive_power_flow kw)"

definition ACBranch_fields :: "('acbus, 'z) ACBranch_kw_scheme \<Rightarrow> 'acbus ACBranch option" where
  "ACBranch_fields kw =
     (case (Branch_fields kw, ACBranch_kw.kw_from_bus kw, ACBranch_kw.kw_to_bus kw) of
        (Some b, Given f, Given t) \<Rightarrow>
          Some (Branch.extend b
            \<lparr>ACBranch.from_bus = f,
             ACBranch.to_bus = t,
             branch_r = with_default None (kw_r kw),
             branch_x = with_default None (kw_x kw),
             primary_shunt = with_default None (kw_primary_shunt kw),
             rating = with_default None (kw_rating kw),
             ACBranch.active_power_flow = with_default None (ACBranch_kw.kw_active_power_flow kw),
             reactive_power_flow = with_default None (kw_reactive_power_flow kw),
             angle_limits = with_default None (kw_angle_limits kw)\<rparr>)
      | _ \<Rightarrow> None)"

definition ACBranch_new :: "'acbus ACBranch_kw \<Rightarrow> error list + 'acbus ACBranch" where
  "ACBranch_new kw = finish_validation (ACBranch_errors kw) (ACBranch_fields kw)"

definition serialize_angle_limits ::
  "('acbus, 'z) ACBranch_scheme \<Rightarrow> MinMax option \<Rightarrow> (string \<times> real) list option" where
  "serialize_angle_limits self min_max =
     (case min_max of
        Some mm \<Rightarrow> Some [(''min'', min_v mm), (''max'', max_v mm)]
      | None \<Rightarrow> None)"

subsubsection \<open>MonitoredLine\<close>

record 'acbus MonitoredLine_kw = "'acbus ACBranch_kw" +
  kw_rating_up :: "Quantity option arg"
  kw_rating_down :: "Quantity option arg"
  kw_losses :: "Quantity option arg"

record 'acbus MonitoredLine = "'acbus ACBranch" +
  rating_up :: "Quantity option"
  rating_down :: "Quantity option"
  losses :: "Quantity option"

definition MonitoredLine_errors :: "('acbus, 'z) MonitoredLine_kw_scheme \<Rightarrow> error list" where
  "MonitoredLine_errors kw =
     ACBranch_errors kw @
     quantity_ge0 ''rating_up'' (MonitoredLine_kw.kw_rating_up kw) @
     quantity_le0 ''rating_down'' (MonitoredLine_kw.kw_rating_down kw)"

definition MonitoredLine_fields ::
  "('acbus, 'z) MonitoredLine_kw_scheme \<Rightarrow> 'acbus MonitoredLine option" where
  "MonitoredLine_fields kw =
     (case ACBranch_fields kw of
        Some b \<Rightarrow>
          Some (ACBranch.extend b
            \<lparr>MonitoredLine.rating_up = with_default None (MonitoredLine_kw.kw_rating_up kw),
             MonitoredLine.rating_down = with_default None (MonitoredLine_kw.kw_rating_down kw),
             MonitoredLine.losses = with_default None (MonitoredLine_kw.kw_losses kw)\<rparr>)
      | None \<Rightarrow> None)"

definition MonitoredLine_new ::
  "'acbus MonitoredLine_kw \<Rightarrow> error list + 'acbus MonitoredLine" where
  "MonitoredLine_new kw = finish_validation (MonitoredLine_errors kw) (MonitoredLine_fields kw)"

text \<open>
  The example factories of the AC classes call \<^verbatim>\<open>ACBus.example()\<close> of
  \<^verbatim>\<open>r2x.models.topology\<close>; the bus it returns is the parameter \<open>acbus_example\<close>.
\<close>

definition MonitoredLine_example_kwargs :: "'acbus \<Rightarrow> 'acbus MonitoredLine_kw" where
  "MonitoredLine_example_kwargs acbus_example =
     \<lparr>kw_name = Given ''ExampleMonitoredLine'',
      ACBranch_kw.kw_from_bus = Given acbus_example,
      ACBranch_kw.kw_to_bus = Given acbus_example,
      kw_r = Omitted,
      kw_x = Omitted,
      kw_primary_shunt = Omitted,
      kw_rating = Given (Some (ActivePower 100 ''MW'')),
      ACBranch_kw.kw_active_power_flow = Omitted,
      kw_reactive_power_flow = Omitted,
      kw_angle_limits = Omitted,
      MonitoredLine_kw.kw_rating_up = Given (Some (ActivePower 100 ''MW'')),
      MonitoredLine_kw.kw_rating_down = Given (Some (ActivePower (- 100) ''MW'')),
      MonitoredLine_kw.kw_losses = Given (Some (Percentage 10 ''%''))\<rparr>"

definition MonitoredLine_example :: "'acbus \<Rightarrow> error list + 'acbus MonitoredLine" where
  "MonitoredLine_example acbus_example = MonitoredLine_new (MonitoredLine_example_kwargs acbus_example)"

subsubsection \<open>Line and Transformer2W\<close>

text \<open>Both classes add an example factory to \<^verbatim>\<open>ACBranch\<close>, and no field.\<close>

type_synonym 'acbus Line = "'acbus ACBranch"

type_synonym 'acbus Transformer2W = "'acbus ACBranch"

definition Line_new :: "'acbus ACBranch_kw \<Rightarrow> error list + 'acbus Line" where
  "Line_new kw = ACBranch_new kw"

definition Transformer2W_new :: "'acbus ACBranch_kw \<Rightarrow> error list + 'acbus Transformer2W" where
  "Transformer2W_new kw = ACBranch_new kw"

definition Line_example_kwargs :: "'acbus \<Rightarrow> 'acbus ACBranch_kw" where
  "Line_example_kwargs acbus_example =
     \<lparr>kw_name = Given ''ExampleLine'',
      ACBranch_kw.kw_from_bus = Given acbus_example,
      ACBranch_kw.kw_to_bus = Given acbus_example,
      kw_r = Omitted,
      kw_x = Omitted,
      kw_primary_shunt = Omitted,
      kw_rating = Given (Some (ActivePower 100 ''MW'')),
      ACBranch_kw.kw_active_power_flow = Omitted,
      kw_reactive_power_flow = Omitted,
      kw_angle_limits = Omitted\<rparr>"

definition Line_example :: "'acbus \<Rightarrow> error list + 'acbus Line" where
  "Line_example acbus_example = Line_new (Line_example_kwargs acbus_example)"

definition Transformer2W_example_kwargs :: "'acbus \<Rightarrow> 'acbus ACBranch_kw" where
  "Transformer2W_example_kwargs acbus_example =
     \<lparr>kw_name = Given ''Example2WTransformer'',
      ACBranch_kw.kw_from_bus = Given acbus_example,
      ACBranch_kw.kw_to_bus = Given acbus_example,
      kw_r = Omitted,
      kw_x = Omitted,
      kw_primary_shunt = Omitted,
      kw_rating = Given (Some (ActivePower 100 ''MW'')),
      ACBranch_kw.kw_active_power_flow = Omitted,
      kw_reactive_power_flow = Omitted,
      kw_angle_limits = Omitted\<rparr>"

definition Transformer2W_example :: "'acbus \<Rightarrow> error list + 'acbus Transformer2W" where
  "Transformer2W_example acbus_example = Transformer2W_new (Transformer2W_example_kwargs acbus_example)"

subsection \<open>DCBranch and TModelHVDCLine\<close>

record 'bus DCBranch_kw = Branch_kw +
  kw_from_bus :: "'bus arg"
  kw_to_bus :: "'bus arg"
  kw_active_power_flow :: "Quantity option arg"
  kw_active_power_limits_from :: "MinMax option arg"
  kw_active_power_limits_to :: "MinMax option arg"
  kw_reactive_power_limits_from :: "MinMax option arg"
  kw_reactive_power_limits_to :: "MinMax option arg"

record 'bus DCBranch = Branch +
  from_bus :: 'bus
  to_bus :: 'bus
  active_power_flow :: "Quantity option"
  active_power_limits_from :: "MinMax option"
  active_power_limits_to :: "MinMax option"
  reactive_power_limits_from :: "MinMax option"
  reactive_power_limits_to :: "MinMax option"

definition DCBranch_errors :: "('bus, 'z) DCBranch_kw_scheme \<Rightarrow> error list" where
  "DCBranch_errors kw =
     Branch_errors kw @
     required ''from_bus'' (DCBranch_kw.kw_from_bus kw) @
     required ''to_bus'' (DCBranch_kw.kw_to_bus kw) @
     quantity_ge0 ''active_power_flow'' (DCBranch_kw.kw_active_power_flow kw)"

definition DCBranch_fields :: "('bus, 'z) DCBranch_kw_scheme \<Rightarrow> 'bus DCBranch option" where
  "DCBranch_fields kw =
     (case (Branch_fields kw, DCBranch_kw.kw_from_bus kw, DCBranch_kw.kw_to_bus kw) of
        (Some b, Given f, Given t) \<Rightarrow>
          Some (Branch.extend b
            \<lparr>DCBranch.from_bus = f,
             DCBranch.to_bus = t,
             DCBranch.active_power_flow = with_default None (DCBranch_kw.kw_active_power_flow kw),
             active_power_limits_from = with_default None (kw_active_power_limits_from kw),
             active_power_limits_to = with_default None (kw_active_power_limits_to kw),
             reactive_power_limits_from = with_default None (kw_reactive_power_limits_from kw),
             reactive_power_limits_to = with_default None (kw_reactive_power_limits_to kw)\<rparr>)
      | _ \<Rightarrow> None)"

definition DCBranch_new :: "'bus DCBranch_kw \<Rightarrow> error list + 'bus DCBranch" where
  "DCBranch_new kw = finish_validation (DCBranch_errors kw) (DCBranch_fields kw)"

definition serialize_active_power_limits_from ::
  "('bus, 'z) DCBranch_scheme \<Rightarrow> MinMax option \<Rightarrow> (string \<times> real) list option" where
  "serialize_active_power_limits_from self min_max =
     (case min_max of
        Some mm \<Rightarrow> Some [(''min'', min_v mm), (''max'', max_v mm)]
      | None \<Rightarrow> None)"

definition serialize_active_power_limits_to ::
  "('bus, 'z) DCBranch_scheme \<Rightarrow> MinMax option \<Rightarrow> (string \<times> real) list option" where
  "serialize_active_power_limits_to self min_max =
     (case min_max of
        Some mm \<Rightarrow> Some [(''min'', min_v mm), (''max'', max_v mm)]
      | None \<Rightarrow> None)"

definition serialize_reactive_power_limits_from ::
  "('bus, 'z) DCBranch_scheme \<Rightarrow> MinMax option \<Rightarrow> (string \<times> real) list option" where
  "serialize_reactive_power_limits_from self min_max =
     (case min_max of
        Some mm \<Rightarrow> Some [(''min'', min_v mm), (''max'', max_v mm)]
      | None \<Rightarrow> None)"

definition serialize_reactive_power_limits_to ::
  "('bus, 'z) DCBranch_scheme \<Rightarrow> MinMax option \<Rightarrow> (string \<times> real) list option" where
  "serialize_reactive_power_limits_to self min_max =
     (case min_max of
        Some mm \<Rightarrow> Some [(''min'', min_v mm), (''max'', max_v mm)]
      | None \<Rightarrow> None)"

record 'bus TModelHVDCLine_kw = "'bus DCBranch_kw" +
  kw_rating_up :: "real option arg"
  kw_rating_down :: "real option arg"
  kw_losses :: "real arg"
  kw_resistance :: "real option arg"
  kw_inductance :: "real option arg"
  kw_capacitance :: "real option arg"

record 'bus TModelHVDCLine = "'bus DCBranch" +
  rating_up :: "real option"
  rating_down :: "real option"
  losses :: real
  resistance :: "real option"
  inductance :: "real option"
  capacitance :: "real option"

definition TModelHVDCLine_errors :: "('bus, 'z) TModelHVDCLine_kw_scheme \<Rightarrow> error list" where
  "TModelHVDCLine_errors kw =
     DCBranch_errors kw @
     float_ge0 ''rating_up'' (TModelHVDCLine_kw.kw_rating_up kw) @
     float_le0 ''rating_down'' (TModelHVDCLine_kw.kw_rating_down kw) @
     validate_given (ge0 ''losses'') (TModelHVDCLine_kw.kw_losses kw) @
     float_ge0 ''resistance'' (kw_resistance kw) @
     float_ge0 ''inductance'' (kw_inductance kw) @
     float_ge0 ''capacitance'' (kw_capacitance kw)"

definition TModelHVDCLine_fields ::
  "('bus, 'z) TModelHVDCLine_kw_scheme \<Rightarrow> 'bus TModelHVDCLine option" where
  "TModelHVDCLine_fields kw =
     (case DCBranch_fields kw of
        Some b \<Rightarrow>
          Some (DCBranch.extend b
            \<lparr>TModelHVDCLine.rating_up = with_default None (TModelHVDCLine_kw.kw_rating_up kw),
             TModelHVDCLine.rating_down = with_default None (TModelHVDCLine_kw.kw_rating_down kw),
             TModelHVDCLine.losses = with_default 0 (TModelHVDCLine_kw.kw_losses kw),
             resistance = with_default (Some 0) (kw_resistance kw),
             inductance = with_default (Some 0) (kw_inductance kw),
             capacitance = with_default (Some 0) (kw_capacitance kw)\<rparr>)
      | None \<Rightarrow> None)"

definition TModelHVDCLine_new ::
  "'bus TModelHVDCLine_kw \<Rightarrow> error list + 'bus TModelHVDCLine" where
  "TModelHVDCLine_new kw = finish_validation (TModelHVDCLine_errors kw) (TModelHVDCLine_fields kw)"

text \<open>
  The factory passes \<^verbatim>\<open>DCBus.example()\<close> of \<^verbatim>\<open>r2x.models.topology\<close> for both
  ends; the bus it returns is the parameter \<open>dcbus_example\<close>.
\<close>

definition TModelHVDCLine_example_kwargs :: "'bus \<Rightarrow> 'bus TModelHVDCLine_kw" where
  "TModelHVDCLine_example_kwargs dcbus_example =
     \<lparr>kw_name = Given ''ExampleDCLine'',
      DCBranch_kw.kw_from_bus = Given dcbus_example,
      DCBranch_kw.kw_to_bus = Given dcbus_example,
      DCBranch_kw.kw_active_power_flow = Omitted,
      kw_active_power_limits_from = Omitted,
      kw_active_power_limits_to = Omitted,
      kw_reactive_power_limits_from = Omitted,
      kw_reactive_power_limits_to = Omitted,
      TModelHVDCLine_kw.kw_rating_up = Given (Some 100),
      TModelHVDCLine_kw.kw_rating_down = Given (Some 80),
      TModelHVDCLine_kw.kw_losses = Omitted,
      kw_resistance = Omitted,
      kw_inductance = Omitted,
      kw_capacitance = Omitted\<rparr>"

definition TModelHVDCLine_example :: "'bus \<Rightarrow> error list + 'bus TModelHVDCLine" where
  "TModelHVDCLine_example dcbus_example = TModelHVDCLine_new (TModelHVDCLine_example_kwargs dcbus_example)"

subsection \<open>AreaInterchange\<close>

record 'area AreaInterchange_kw = Branch_kw +
  kw_max_power_flow :: "Quantity arg"
  kw_min_power_flow :: "Quantity arg"
  kw_from_area :: "'area option arg"
  kw_to_area :: "'area option arg"

record 'area AreaInterchange = Branch +
  max_power_flow :: Quantity
  min_power_flow :: Quantity
  from_area :: "'area option"
  to_area :: "'area option"

definition AreaInterchange_errors :: "('area, 'z) AreaInterchange_kw_scheme \<Rightarrow> error list" where
  "AreaInterchange_errors kw =
     Branch_errors kw @
     required ''max_power_flow'' (kw_max_power_flow kw) @
     validate_given (\<lambda>q. ge0 ''max_power_flow'' (magnitude q)) (kw_max_power_flow kw) @
     required ''min_power_flow'' (kw_min_power_flow kw) @
     validate_given (\<lambda>q. le0 ''min_power_flow'' (magnitude q)) (kw_min_power_flow kw)"

definition AreaInterchange_fields ::
  "('area, 'z) AreaInterchange_kw_scheme \<Rightarrow> 'area AreaInterchange option" where
  "AreaInterchange_fields kw =
     (case (Branch_fields kw, kw_max_power_flow kw, kw_min_power_flow kw) of
        (Some b, Given hi, Given lo) \<Rightarrow>
          Some (Branch.extend b
            \<lparr>max_power_flow = hi,
             min_power_flow = lo,
             from_area = with_default None (kw_from_area kw),
             to_area = with_default None (kw_to_area kw)\<rparr>)
      | _ \<Rightarrow> None)"

definition AreaInterchange_new ::
  "'area AreaInterchange_kw \<Rightarrow> error list + 'area AreaInterchange" where
  "AreaInterchange_new kw = finish_validation (AreaInterchange_errors kw) (AreaInterchange_fields kw)"

text \<open>
  The factory passes \<^verbatim>\<open>Area.example()\<close> of \<^verbatim>\<open>r2x.models.topology\<close> for both
  areas; the area it returns is the parameter \<open>area_example\<close>.
\<close>

definition AreaInterchange_example_kwargs :: "'area \<Rightarrow> 'area AreaInterchange_kw" where
  "AreaInterchange_example_kwargs area_example =
     \<lparr>kw_name = Given ''ExampleAreaInterchange'',
      kw_max_power_flow = Given (ActivePower 100 ''MW''),
      kw_min_power_flow = Given (ActivePower (- 100) ''MW''),
      kw_from_area = Given (Some area_example),
      kw_to_area = Given (Some area_example)\<rparr>"

definition AreaInterchange_example :: "'area \<Rightarrow> error list + 'area AreaInterchange" where
  "AreaInterchange_example area_example = AreaInterchange_new (AreaInterchange_example_kwargs area_example)"

subsection \<open>Serialized output of the range fields\<close>

text \<open>
  Modelled from the spec: the dump of an instance into its serialized output. The branch
  module declares the serializer of each \<^verbatim>\<open>MinMax\<close>-valued field and never dumps
  an instance itself. The specification (sections 3, 4.1 and 6) has such a field
  serialize to \<open>{"min": ..., "max": ...}\<close> and has an absent optional field omitted from
  the output: a field is emitted under its own name with the structure that its
  serializer returns, and it is left out when the serializer returns \<^verbatim>\<open>None\<close>.
\<close>

definition emit_field :: "string \<Rightarrow> 'v option \<Rightarrow> (string \<times> 'v) list" where
  "emit_field k v = (case v of Some d \<Rightarrow> [(k, d)] | None \<Rightarrow> [])"

text \<open>
  Modelled from the spec: the entries of the \<^verbatim>\<open>MinMax\<close>-valued field of an AC
  branch in its serialized output (specification, sections 4.1 and 6), each produced by
  the serializer that the branch module declares for the field.
\<close>

definition ACBranch_dump_limits ::
  "('acbus, 'z) ACBranch_scheme \<Rightarrow> (string \<times> (string \<times> real) list) list" where
  "ACBranch_dump_limits b =
     emit_field ''angle_limits'' (serialize_angle_limits b (angle_limits b))"

text \<open>
  Modelled from the spec: the entries of the four \<^verbatim>\<open>MinMax\<close>-valued fields of a DC
  branch in its serialized output (specification, sections 4.1 and 6), each produced by
  the serializer that the branch module declares for the field.
\<close>

definition DCBranch_dump_limits ::
  "('bus, 'z) DCBranch_scheme \<Rightarrow> (string \<times> (string \<times> real) list) list" where
  "DCBranch_dump_limits b =
     emit_field ''active_power_limits_from''
       (serialize_active_power_limits_from b (active_power_limits_from b)) @
     emit_field ''active_power_limits_to''
       (serialize_active_power_limits_to b (active_power_limits_to b)) @
     emit_field ''reactive_power_limits_from''
       (serialize_reactive_power_limits_from b (reactive_power_limits_from b)) @
     emit_field ''reactive_power_limits_to''
       (serialize_reactive_power_limits_to b (reactive_power_limits_to b))"

section \<open>Properties of the validators\<close>

text \<open>
  A construction returns an instance exactly when no field reported a failure, and it
  raises every failure that was reported.
\<close>

lemma finish_validation_Inr:
  "finish_validation es inst = Inr x \<longleftrightarrow> es = [] \<and> inst = Some x"
  by (simp add: finish_validation_def split: list.splits option.splits)

lemma finish_validation_Inl:
  "es \<noteq> [] \<Longrightarrow> finish_validation es inst = Inl es"
  by (simp add: finish_validation_def split: list.splits)

text \<open>A bound that reported nothing holds of the stored value.\<close>

lemma quantity_ge0_passed:
  assumes "quantity_ge0 f a = []" and "with_default None a = Some q"
  shows "0 \<le> magnitude q"
  using assms
  by (cases a) (auto simp: quantity_ge0_def validate_given_def nullable_def ge0_def
      with_default_def split: if_splits)

lemma quantity_le0_passed:
  assumes "quantity_le0 f a = []" and "with_default None a = Some q"
  shows "magnitude q \<le> 0"
  using assms
  by (cases a) (auto simp: quantity_le0_def validate_given_def nullable_def le0_def
      with_default_def split: if_splits)

lemma float_ge0_passed:
  assumes "float_ge0 f a = []" and "a = Given (Some v)"
  shows "0 \<le> v"
  using assms
  by (auto simp: float_ge0_def validate_given_def nullable_def ge0_def split: if_splits)

lemma float_le0_passed:
  assumes "float_le0 f a = []" and "a = Given (Some v)"
  shows "v \<le> 0"
  using assms
  by (auto simp: float_le0_def validate_given_def nullable_def le0_def split: if_splits)

text \<open>A value on the wrong side of zero is reported under the name of its field.\<close>

lemma quantity_ge0_negative:
  "magnitude q < 0 \<Longrightarrow> quantity_ge0 f (Given (Some q)) = [SignConstraintError f]"
  by (simp add: quantity_ge0_def validate_given_def nullable_def ge0_def)

lemma quantity_le0_positive:
  "0 < magnitude q \<Longrightarrow> quantity_le0 f (Given (Some q)) = [SignConstraintError f]"
  by (simp add: quantity_le0_def validate_given_def nullable_def le0_def)

section \<open>What a construction stores\<close>

text \<open>
  Each field of an instance is the argument that was passed for it, or the default of
  the field when the argument was left out.
\<close>

lemma Branch_fields_Some:
  "Branch_fields kw = Some b \<Longrightarrow> kw_name kw = Given (name b)"
  by (auto simp: Branch_fields_def split: arg.splits)

lemma ACBranch_fields_Some:
  assumes "ACBranch_fields kw = Some b"
  shows "rating b = with_default None (kw_rating kw)"
    and "ACBranch.active_power_flow b = with_default None (ACBranch_kw.kw_active_power_flow kw)"
    and "reactive_power_flow b = with_default None (kw_reactive_power_flow kw)"
    and "angle_limits b = with_default None (kw_angle_limits kw)"
  using assms
  by (auto simp: ACBranch_fields_def Branch.defs split: option.splits arg.splits)

lemma MonitoredLine_fields_Some:
  assumes "MonitoredLine_fields kw = Some l"
  shows "rating l = with_default None (kw_rating kw)"
    and "ACBranch.active_power_flow l = with_default None (ACBranch_kw.kw_active_power_flow kw)"
    and "reactive_power_flow l = with_default None (kw_reactive_power_flow kw)"
    and "MonitoredLine.rating_up l = with_default None (MonitoredLine_kw.kw_rating_up kw)"
    and "MonitoredLine.rating_down l = with_default None (MonitoredLine_kw.kw_rating_down kw)"
    and "MonitoredLine.losses l = with_default None (MonitoredLine_kw.kw_losses kw)"
  using assms ACBranch_fields_Some [of kw]
  by (auto simp: MonitoredLine_fields_def ACBranch.defs split: option.splits)

lemma DCBranch_fields_Some:
  assumes "DCBranch_fields kw = Some b"
  shows "DCBranch.active_power_flow b = with_default None (DCBranch_kw.kw_active_power_flow kw)"
  using assms
  by (auto simp: DCBranch_fields_def Branch.defs split: option.splits arg.splits)

lemma TModelHVDCLine_fields_Some:
  assumes "TModelHVDCLine_fields kw = Some l"
  shows "DCBranch.active_power_flow l = with_default None (DCBranch_kw.kw_active_power_flow kw)"
    and "TModelHVDCLine.rating_up l = with_default None (TModelHVDCLine_kw.kw_rating_up kw)"
    and "TModelHVDCLine.rating_down l = with_default None (TModelHVDCLine_kw.kw_rating_down kw)"
    and "TModelHVDCLine.losses l = with_default 0 (TModelHVDCLine_kw.kw_losses kw)"
    and "resistance l = with_default (Some 0) (kw_resistance kw)"
    and "inductance l = with_default (Some 0) (kw_inductance kw)"
    and "capacitance l = with_default (Some 0) (kw_capacitance kw)"
  using assms DCBranch_fields_Some [of kw]
  by (auto simp: TModelHVDCLine_fields_def DCBranch.defs split: option.splits)

lemma AreaInterchange_fields_Some:
  assumes "AreaInterchange_fields kw = Some a"
  shows "kw_max_power_flow kw = Given (max_power_flow a)"
    and "kw_min_power_flow kw = Given (min_power_flow a)"
  using assms
  by (auto simp: AreaInterchange_fields_def Branch.defs split: option.splits arg.splits)

section \<open>Successful and failing constructions\<close>

lemma ACBranch_new_Inr:
  assumes "ACBranch_new kw = Inr b"
  shows "ACBranch_errors kw = []" and "ACBranch_fields kw = Some b"
  using assms by (simp_all add: ACBranch_new_def finish_validation_Inr)

lemma MonitoredLine_new_Inr:
  assumes "MonitoredLine_new kw = Inr l"
  shows "MonitoredLine_errors kw = []" and "MonitoredLine_fields kw = Some l"
  using assms by (simp_all add: MonitoredLine_new_def finish_validation_Inr)

lemma DCBranch_new_Inr:
  assumes "DCBranch_new kw = Inr b"
  shows "DCBranch_errors kw = []" and "DCBranch_fields kw = Some b"
  using assms by (simp_all add: DCBranch_new_def finish_validation_Inr)

lemma TModelHVDCLine_new_Inr:
  assumes "TModelHVDCLine_new kw = Inr l"
  shows "TModelHVDCLine_errors kw = []" and "TModelHVDCLine_fields kw = Some l"
  using assms by (simp_all add: TModelHVDCLine_new_def finish_validation_Inr)

lemma AreaInterchange_new_Inr:
  assumes "AreaInterchange_new kw = Inr a"
  shows "AreaInterchange_errors kw = []" and "AreaInterchange_fields kw = Some a"
  using assms by (simp_all add: AreaInterchange_new_def finish_validation_Inr)

text \<open>A failure reported for a field is among the failures that the constructor raises.\<close>

lemma ACBranch_new_fails:
  "e \<in> set (ACBranch_errors kw) \<Longrightarrow> \<exists>es. ACBranch_new kw = Inl es \<and> e \<in> set es"
  unfolding ACBranch_new_def by (cases "ACBranch_errors kw") (auto simp: finish_validation_Inl)

lemma MonitoredLine_new_fails:
  "e \<in> set (MonitoredLine_errors kw) \<Longrightarrow> \<exists>es. MonitoredLine_new kw = Inl es \<and> e \<in> set es"
  unfolding MonitoredLine_new_def
  by (cases "MonitoredLine_errors kw") (auto simp: finish_validation_Inl)

lemma DCBranch_new_fails:
  "e \<in> set (DCBranch_errors kw) \<Longrightarrow> \<exists>es. DCBranch_new kw = Inl es \<and> e \<in> set es"
  unfolding DCBranch_new_def by (cases "DCBranch_errors kw") (auto simp: finish_validation_Inl)

lemma TModelHVDCLine_new_fails:
  "e \<in> set (TModelHVDCLine_errors kw) \<Longrightarrow> \<exists>es. TModelHVDCLine_new kw = Inl es \<and> e \<in> set es"
  unfolding TModelHVDCLine_new_def
  by (cases "TModelHVDCLine_errors kw") (auto simp: finish_validation_Inl)

lemma AreaInterchange_new_fails:
  "e \<in> set (AreaInterchange_errors kw) \<Longrightarrow> \<exists>es. AreaInterchange_new kw = Inl es \<and> e \<in> set es"
  unfolding AreaInterchange_new_def
  by (cases "AreaInterchange_errors kw") (auto simp: finish_validation_Inl)

text \<open>A subclass validates the fields that it inherits.\<close>

lemma MonitoredLine_errors_ACBranch:
  "e \<in> set (ACBranch_errors kw) \<Longrightarrow> e \<in> set (MonitoredLine_errors kw)"
  by (simp add: MonitoredLine_errors_def)

lemma TModelHVDCLine_errors_DCBranch:
  "e \<in> set (DCBranch_errors kw) \<Longrightarrow> e \<in> set (TModelHVDCLine_errors kw)"
  by (simp add: TModelHVDCLine_errors_def)

text \<open>The failures that single arguments cause.\<close>

lemma ACBranch_errors_missing_from_bus:
  "ACBranch_kw.kw_from_bus kw = Omitted \<Longrightarrow>
     MissingFieldError ''from_bus'' \<in> set (ACBranch_errors kw)"
  by (simp add: ACBranch_errors_def required_def)

lemma ACBranch_errors_negative:
  "kw_rating kw = Given (Some q) \<Longrightarrow> magnitude q < 0 \<Longrightarrow>
     SignConstraintError ''rating'' \<in> set (ACBranch_errors kw)"
  "ACBranch_kw.kw_active_power_flow kw = Given (Some q) \<Longrightarrow> magnitude q < 0 \<Longrightarrow>
     SignConstraintError ''active_power_flow'' \<in> set (ACBranch_errors kw)"
  "kw_reactive_power_flow kw = Given (Some q) \<Longrightarrow> magnitude q < 0 \<Longrightarrow>
     SignConstraintError ''reactive_power_flow'' \<in> set (ACBranch_errors kw)"
  by (simp_all add: ACBranch_errors_def quantity_ge0_negative)

lemma DCBranch_errors_negative:
  "DCBranch_kw.kw_active_power_flow kw = Given (Some q) \<Longrightarrow> magnitude q < 0 \<Longrightarrow>
     SignConstraintError ''active_power_flow'' \<in> set (DCBranch_errors kw)"
  by (simp add: DCBranch_errors_def quantity_ge0_negative)

lemma MonitoredLine_errors_rating_down:
  "MonitoredLine_kw.kw_rating_down kw = Given (Some q) \<Longrightarrow> 0 < magnitude q \<Longrightarrow>
     SignConstraintError ''rating_down'' \<in> set (MonitoredLine_errors kw)"
  by (simp add: MonitoredLine_errors_def quantity_le0_positive)

lemma AreaInterchange_errors_missing:
  "kw_max_power_flow kw = Omitted \<Longrightarrow>
     MissingFieldError ''max_power_flow'' \<in> set (AreaInterchange_errors kw)"
  "kw_min_power_flow kw = Omitted \<Longrightarrow>
     MissingFieldError ''min_power_flow'' \<in> set (AreaInterchange_errors kw)"
  by (simp_all add: AreaInterchange_errors_def required_def)

lemma AreaInterchange_errors_negative_max:
  "kw_max_power_flow kw = Given q \<Longrightarrow> magnitude q < 0 \<Longrightarrow>
     SignConstraintError ''max_power_flow'' \<in> set (AreaInterchange_errors kw)"
  by (simp add: AreaInterchange_errors_def validate_given_def ge0_def)

text \<open>
  A required argument that was left out is always reported, so a construction that
  returns no instance raises at least one failure.
\<close>

lemma finish_validation_reports:
  "(inst = None \<Longrightarrow> es \<noteq> []) \<Longrightarrow> finish_validation es inst \<noteq> Inl []"
  by (cases es; cases inst) (simp_all add: finish_validation_def)

lemma Branch_fields_None:
  "Branch_fields kw = None \<Longrightarrow> Branch_errors kw \<noteq> []"
  by (simp add: Branch_fields_def Branch_errors_def Device_errors_def required_def
      split: arg.splits)

lemma ACBranch_fields_None:
  "ACBranch_fields kw = None \<Longrightarrow> ACBranch_errors kw \<noteq> []"
  using Branch_fields_None [of kw]
  by (auto simp: ACBranch_fields_def ACBranch_errors_def required_def
      split: option.splits arg.splits)

lemma DCBranch_fields_None:
  "DCBranch_fields kw = None \<Longrightarrow> DCBranch_errors kw \<noteq> []"
  using Branch_fields_None [of kw]
  by (auto simp: DCBranch_fields_def DCBranch_errors_def required_def
      split: option.splits arg.splits)

lemma AreaInterchange_fields_None:
  "AreaInterchange_fields kw = None \<Longrightarrow> AreaInterchange_errors kw \<noteq> []"
  using Branch_fields_None [of kw]
  by (auto simp: AreaInterchange_fields_def AreaInterchange_errors_def required_def
      split: option.splits arg.splits)

lemma failures_are_reported:
  "Branch_new kw1 \<noteq> Inl []"
  "ACBranch_new kw2 \<noteq> Inl []"
  "MonitoredLine_new kw3 \<noteq> Inl []"
  "DCBranch_new kw4 \<noteq> Inl []"
  "TModelHVDCLine_new kw5 \<noteq> Inl []"
  "AreaInterchange_new kw6 \<noteq> Inl []"
proof -
  show "Branch_new kw1 \<noteq> Inl []"
    unfolding Branch_new_def by (rule finish_validation_reports) (rule Branch_fields_None)
  show "ACBranch_new kw2 \<noteq> Inl []"
    unfolding ACBranch_new_def by (rule finish_validation_reports) (rule ACBranch_fields_None)
  show "MonitoredLine_new kw3 \<noteq> Inl []"
    unfolding MonitoredLine_new_def
    using ACBranch_fields_None [of kw3]
    by (intro finish_validation_reports)
      (auto simp: MonitoredLine_fields_def MonitoredLine_errors_def split: option.splits)
  show "DCBranch_new kw4 \<noteq> Inl []"
    unfolding DCBranch_new_def by (rule finish_validation_reports) (rule DCBranch_fields_None)
  show "TModelHVDCLine_new kw5 \<noteq> Inl []"
    unfolding TModelHVDCLine_new_def
    using DCBranch_fields_None [of kw5]
    by (intro finish_validation_reports)
      (auto simp: TModelHVDCLine_fields_def TModelHVDCLine_errors_def split: option.splits)
  show "AreaInterchange_new kw6 \<noteq> Inl []"
    unfolding AreaInterchange_new_def
    by (rule finish_validation_reports) (rule AreaInterchange_fields_None)
qed

section \<open>Sign invariants of the instances\<close>

lemma ACBranch_flows_nonneg:
  assumes "ACBranch_errors kw = []"
  shows "with_default None (kw_rating kw) = Some q \<Longrightarrow> 0 \<le> magnitude q"
    and "with_default None (ACBranch_kw.kw_active_power_flow kw) = Some q \<Longrightarrow> 0 \<le> magnitude q"
    and "with_default None (kw_reactive_power_flow kw) = Some q \<Longrightarrow> 0 \<le> magnitude q"
  using assms by (auto simp: ACBranch_errors_def intro: quantity_ge0_passed)

lemma ACBranch_invariant:
  assumes "ACBranch_new kw = Inr b"
  shows "rating b = Some q \<Longrightarrow> 0 \<le> magnitude q"
    and "ACBranch.active_power_flow b = Some q \<Longrightarrow> 0 \<le> magnitude q"
    and "reactive_power_flow b = Some q \<Longrightarrow> 0 \<le> magnitude q"
  using ACBranch_new_Inr [OF assms] ACBranch_flows_nonneg [of kw q]
  by (simp_all add: ACBranch_fields_Some)

lemma MonitoredLine_invariant:
  assumes "MonitoredLine_new kw = Inr l"
  shows "rating l = Some q \<Longrightarrow> 0 \<le> magnitude q"
    and "ACBranch.active_power_flow l = Some q \<Longrightarrow> 0 \<le> magnitude q"
    and "reactive_power_flow l = Some q \<Longrightarrow> 0 \<le> magnitude q"
    and "MonitoredLine.rating_up l = Some q \<Longrightarrow> 0 \<le> magnitude q"
    and "MonitoredLine.rating_down l = Some q \<Longrightarrow> magnitude q \<le> 0"
proof -
  from MonitoredLine_new_Inr [OF assms]
  have errs: "ACBranch_errors kw = []"
      "quantity_ge0 ''rating_up'' (MonitoredLine_kw.kw_rating_up kw) = []"
      "quantity_le0 ''rating_down'' (MonitoredLine_kw.kw_rating_down kw) = []"
    and fields: "MonitoredLine_fields kw = Some l"
    by (simp_all add: MonitoredLine_errors_def)
  note stored = MonitoredLine_fields_Some [OF fields]
  show "rating l = Some q \<Longrightarrow> 0 \<le> magnitude q"
    using ACBranch_flows_nonneg(1) [OF errs(1), of q] by (simp add: stored)
  show "ACBranch.active_power_flow l = Some q \<Longrightarrow> 0 \<le> magnitude q"
    using ACBranch_flows_nonneg(2) [OF errs(1), of q] by (simp add: stored)
  show "reactive_power_flow l = Some q \<Longrightarrow> 0 \<le> magnitude q"
    using ACBranch_flows_nonneg(3) [OF errs(1), of q] by (simp add: stored)
  show "MonitoredLine.rating_up l = Some q \<Longrightarrow> 0 \<le> magnitude q"
    using quantity_ge0_passed [OF errs(2), of q] by (simp add: stored)
  show "MonitoredLine.rating_down l = Some q \<Longrightarrow> magnitude q \<le> 0"
    using quantity_le0_passed [OF errs(3), of q] by (simp add: stored)
qed

lemma DCBranch_invariant:
  assumes "DCBranch_new kw = Inr b"
  shows "DCBranch.active_power_flow b = Some q \<Longrightarrow> 0 \<le> magnitude q"
proof -
  from DCBranch_new_Inr [OF assms]
  have "quantity_ge0 ''active_power_flow'' (DCBranch_kw.kw_active_power_flow kw) = []"
    and "DCBranch_fields kw = Some b"
    by (simp_all add: DCBranch_errors_def)
  then show "DCBranch.active_power_flow b = Some q \<Longrightarrow> 0 \<le> magnitude q"
    using quantity_ge0_passed [of "''active_power_flow''" _ q]
    by (simp add: DCBranch_fields_Some)
qed

lemma TModelHVDCLine_invariant:
  assumes "TModelHVDCLine_new kw = Inr l"
  shows "DCBranch.active_power_flow l = Some q \<Longrightarrow> 0 \<le> magnitude q"
    and "TModelHVDCLine.rating_up l = Some v \<Longrightarrow> 0 \<le> v"
    and "TModelHVDCLine.rating_down l = Some v \<Longrightarrow> v \<le> 0"
proof -
  from TModelHVDCLine_new_Inr [OF assms]
  have errs: "quantity_ge0 ''active_power_flow'' (DCBranch_kw.kw_active_power_flow kw) = []"
      "float_ge0 ''rating_up'' (TModelHVDCLine_kw.kw_rating_up kw) = []"
      "float_le0 ''rating_down'' (TModelHVDCLine_kw.kw_rating_down kw) = []"
    and fields: "TModelHVDCLine_fields kw = Some l"
    by (simp_all add: TModelHVDCLine_errors_def DCBranch_errors_def)
  note stored = TModelHVDCLine_fields_Some [OF fields]
  show "DCBranch.active_power_flow l = Some q \<Longrightarrow> 0 \<le> magnitude q"
    using quantity_ge0_passed [OF errs(1), of q] by (simp add: stored)
  show "TModelHVDCLine.rating_up l = Some v \<Longrightarrow> 0 \<le> v"
    using float_ge0_passed [OF errs(2), of v]
    by (cases "TModelHVDCLine_kw.kw_rating_up kw") (simp_all add: stored with_default_def)
  show "TModelHVDCLine.rating_down l = Some v \<Longrightarrow> v \<le> 0"
    using float_le0_passed [OF errs(3), of v]
    by (cases "TModelHVDCLine_kw.kw_rating_down kw") (simp_all add: stored with_default_def)
qed

lemma AreaInterchange_invariant:
  assumes "AreaInterchange_new kw = Inr a"
  shows "0 \<le> magnitude (max_power_flow a)" and "magnitude (min_power_flow a) \<le> 0"
proof -
  from AreaInterchange_new_Inr [OF assms]
  have errs: "AreaInterchange_errors kw = []" and fields: "AreaInterchange_fields kw = Some a"
    by simp_all
  note given = AreaInterchange_fields_Some [OF fields]
  from errs show "0 \<le> magnitude (max_power_flow a)"
    by (simp add: AreaInterchange_errors_def given validate_given_def ge0_def split: if_splits)
  from errs show "magnitude (min_power_flow a) \<le> 0"
    by (simp add: AreaInterchange_errors_def given validate_given_def le0_def split: if_splits)
qed

section \<open>The example factories, evaluated\<close>

lemmas validator_defs =
  required_def with_default_def validate_given_def nullable_def ge0_def le0_def
  quantity_ge0_def quantity_le0_def float_ge0_def float_le0_def finish_validation_def

lemmas class_defs =
  Branch_new_def Branch_errors_def Device_errors_def Branch_fields_def
  ACBranch_new_def ACBranch_errors_def ACBranch_fields_def
  MonitoredLine_new_def MonitoredLine_errors_def MonitoredLine_fields_def
  Line_new_def Transformer2W_new_def
  DCBranch_new_def DCBranch_errors_def DCBranch_fields_def
  TModelHVDCLine_new_def TModelHVDCLine_errors_def TModelHVDCLine_fields_def
  AreaInterchange_new_def AreaInterchange_errors_def AreaInterchange_fields_def
  Branch.defs ACBranch.defs DCBranch.defs

lemma Branch_example_value:
  "Branch_example = Inr \<lparr>name = ''ExampleBranch''\<rparr>"
  by (simp add: Branch_example_def Branch_example_kwargs_def class_defs validator_defs)

lemma MonitoredLine_example_value:
  "MonitoredLine_example b =
     Inr \<lparr>name = ''ExampleMonitoredLine'',
          ACBranch.from_bus = b, ACBranch.to_bus = b,
          branch_r = None, branch_x = None, primary_shunt = None,
          rating = Some \<lparr>magnitude = 100, units = ''MW''\<rparr>,
          ACBranch.active_power_flow = None, reactive_power_flow = None,
          angle_limits = None,
          MonitoredLine.rating_up = Some \<lparr>magnitude = 100, units = ''MW''\<rparr>,
          MonitoredLine.rating_down = Some \<lparr>magnitude = - 100, units = ''MW''\<rparr>,
          MonitoredLine.losses = Some \<lparr>magnitude = 10, units = ''%''\<rparr>\<rparr>"
  by (simp add: MonitoredLine_example_def MonitoredLine_example_kwargs_def class_defs
      validator_defs ActivePower_def Percentage_def)

lemma Line_example_value:
  "Line_example b =
     Inr \<lparr>name = ''ExampleLine'',
          ACBranch.from_bus = b, ACBranch.to_bus = b,
          branch_r = None, branch_x = None, primary_shunt = None,
          rating = Some \<lparr>magnitude = 100, units = ''MW''\<rparr>,
          ACBranch.active_power_flow = None, reactive_power_flow = None,
          angle_limits = None\<rparr>"
  by (simp add: Line_example_def Line_example_kwargs_def class_defs
      validator_defs ActivePower_def)

lemma Transformer2W_example_value:
  "Transformer2W_example b =
     Inr \<lparr>name = ''Example2WTransformer'',
          ACBranch.from_bus = b, ACBranch.to_bus = b,
          branch_r = None, branch_x = None, primary_shunt = None,
          rating = Some \<lparr>magnitude = 100, units = ''MW''\<rparr>,
          ACBranch.active_power_flow = None, reactive_power_flow = None,
          angle_limits = None\<rparr>"
  by (simp add: Transformer2W_example_def Transformer2W_example_kwargs_def class_defs
      validator_defs ActivePower_def)

lemma AreaInterchange_example_value:
  "AreaInterchange_example a =
     Inr \<lparr>name = ''ExampleAreaInterchange'',
          max_power_flow = \<lparr>magnitude = 100, units = ''MW''\<rparr>,
          min_power_flow = \<lparr>magnitude = - 100, units = ''MW''\<rparr>,
          from_area = Some a, to_area = Some a\<rparr>"
  by (simp add: AreaInterchange_example_def AreaInterchange_example_kwargs_def class_defs
      validator_defs ActivePower_def)

lemma TModelHVDCLine_example_errors:
  "TModelHVDCLine_errors (TModelHVDCLine_example_kwargs b) = [SignConstraintError ''rating_down'']"
  by (simp add: TModelHVDCLine_example_kwargs_def class_defs validator_defs)

text \<open>
  With the sign of \<^verbatim>\<open>rating_down\<close> turned around, the arguments of
  \<^verbatim>\<open>TModelHVDCLine.example()\<close> are accepted; the fields that the call leaves out
  take their defaults.
\<close>

lemma TModelHVDCLine_valid_example:
  "TModelHVDCLine_new
     ((TModelHVDCLine_example_kwargs b)\<lparr>TModelHVDCLine_kw.kw_rating_down := Given (Some (- 80))\<rparr>) =
   Inr \<lparr>name = ''ExampleDCLine'',
        DCBranch.from_bus = b, DCBranch.to_bus = b,
        DCBranch.active_power_flow = None,
        active_power_limits_from = None, active_power_limits_to = None,
        reactive_power_limits_from = None, reactive_power_limits_to = None,
        TModelHVDCLine.rating_up = Some 100, TModelHVDCLine.rating_down = Some (- 80),
        TModelHVDCLine.losses = 0,
        resistance = Some 0, inductance = Some 0, capacitance = Some 0\<rparr>"
  by (simp add: TModelHVDCLine_example_kwargs_def class_defs validator_defs)

section \<open>Passing None to the optional fields of TModelHVDCLine\<close>


section \<open>Properties of the specification\<close>

text \<open>
  C1. Every concrete branch class has a parameterless example factory, and the instance
  it builds is meant to pass the validation of its own class. The factories of
  \<^verbatim>\<open>Branch\<close>, \<^verbatim>\<open>MonitoredLine\<close>, \<^verbatim>\<open>Line\<close>, \<^verbatim>\<open>Transformer2W\<close> and
  \<^verbatim>\<open>AreaInterchange\<close> do return an instance. \<^verbatim>\<open>TModelHVDCLine.example()\<close> does
  not: it passes \<^verbatim>\<open>rating_down=80\<close> to a field that is bounded above by zero, so
  the construction raises a sign violation for \<^verbatim>\<open>rating_down\<close> (and for nothing
  else: the fields it leaves out take their defaults and are not the cause).
\<close>

theorem example_factories:
  "TModelHVDCLine_example dc = Inl [SignConstraintError ''rating_down'']
   \<and> (\<exists>x. Branch_example = Inr x)
   \<and> (\<exists>x. MonitoredLine_example ac = Inr x)
   \<and> (\<exists>x. Line_example ac = Inr x)
   \<and> (\<exists>x. Transformer2W_example ac = Inr x)
   \<and> (\<exists>x. AreaInterchange_example ar = Inr x)"
proof -
  have "TModelHVDCLine_example dc = Inl [SignConstraintError ''rating_down'']"
    unfolding TModelHVDCLine_example_def TModelHVDCLine_new_def
    by (simp add: TModelHVDCLine_example_errors finish_validation_Inl)
  then show ?thesis
    by (simp add: Branch_example_value MonitoredLine_example_value Line_example_value
        Transformer2W_example_value AreaInterchange_example_value)
qed

text \<open>
  C2. In the serialized output of a branch, a \<^verbatim>\<open>MinMax\<close>-valued field
  (\<^verbatim>\<open>angle_limits\<close> of an AC branch; \<^verbatim>\<open>active_power_limits_from\<close>,
  \<^verbatim>\<open>active_power_limits_to\<close>, \<^verbatim>\<open>reactive_power_limits_from\<close> and
  \<^verbatim>\<open>reactive_power_limits_to\<close> of a DC branch) that is present is the two-key
  structure \<open>{"min": ..., "max": ...}\<close>, and a field that is absent has no entry in the
  output at all, so it is not emitted with a null value either.
\<close>

theorem range_fields_serialized:
  "(angle_limits ac = Some mm \<longrightarrow>
      map_of (ACBranch_dump_limits ac) ''angle_limits''
        = Some [(''min'', min_v mm), (''max'', max_v mm)])
   \<and> (angle_limits ac = None \<longrightarrow>
      map_of (ACBranch_dump_limits ac) ''angle_limits'' = None)
   \<and> (active_power_limits_from dc = Some mm \<longrightarrow>
      map_of (DCBranch_dump_limits dc) ''active_power_limits_from''
        = Some [(''min'', min_v mm), (''max'', max_v mm)])
   \<and> (active_power_limits_from dc = None \<longrightarrow>
      map_of (DCBranch_dump_limits dc) ''active_power_limits_from'' = None)
   \<and> (active_power_limits_to dc = Some mm \<longrightarrow>
      map_of (DCBranch_dump_limits dc) ''active_power_limits_to''
        = Some [(''min'', min_v mm), (''max'', max_v mm)])
   \<and> (active_power_limits_to dc = None \<longrightarrow>
      map_of (DCBranch_dump_limits dc) ''active_power_limits_to'' = None)
   \<and> (reactive_power_limits_from dc = Some mm \<longrightarrow>
      map_of (DCBranch_dump_limits dc) ''reactive_power_limits_from''
        = Some [(''min'', min_v mm), (''max'', max_v mm)])
   \<and> (reactive_power_limits_from dc = None \<longrightarrow>
      map_of (DCBranch_dump_limits dc) ''reactive_power_limits_from'' = None)
   \<and> (reactive_power_limits_to dc = Some mm \<longrightarrow>
      map_of (DCBranch_dump_limits dc) ''reactive_power_limits_to''
        = Some [(''min'', min_v mm), (''max'', max_v mm)])
   \<and> (reactive_power_limits_to dc = None \<longrightarrow>
      map_of (DCBranch_dump_limits dc) ''reactive_power_limits_to'' = None)"
proof -
  have ac: "map_of (ACBranch_dump_limits ac) ''angle_limits'' =
      map_option (\<lambda>m. [(''min'', min_v m), (''max'', max_v m)]) (angle_limits ac)"
    by (simp add: ACBranch_dump_limits_def emit_field_def serialize_angle_limits_def
        split: option.splits)
  have dc: "map_of (DCBranch_dump_limits dc) ''active_power_limits_from'' =
        map_option (\<lambda>m. [(''min'', min_v m), (''max'', max_v m)]) (active_power_limits_from dc)"
      "map_of (DCBranch_dump_limits dc) ''active_power_limits_to'' =
        map_option (\<lambda>m. [(''min'', min_v m), (''max'', max_v m)]) (active_power_limits_to dc)"
      "map_of (DCBranch_dump_limits dc) ''reactive_power_limits_from'' =
        map_option (\<lambda>m. [(''min'', min_v m), (''max'', max_v m)]) (reactive_power_limits_from dc)"
      "map_of (DCBranch_dump_limits dc) ''reactive_power_limits_to'' =
        map_option (\<lambda>m. [(''min'', min_v m), (''max'', max_v m)]) (reactive_power_limits_to dc)"
    by (simp_all add: DCBranch_dump_limits_def emit_field_def
        serialize_active_power_limits_from_def serialize_active_power_limits_to_def
        serialize_reactive_power_limits_from_def serialize_reactive_power_limits_to_def
        split: option.splits)
  show ?thesis by (simp add: ac dc)
qed

theorem range_fields_serialized_witness:
  "angle_limits (projr (Line_example ''bus'')) = None
   \<and> map_of (ACBranch_dump_limits (projr (Line_example ''bus''))) ''angle_limits'' = None
   \<and> ACBranch_dump_limits (projr (Line_example ''bus'')) = []
   \<and> map_of (ACBranch_dump_limits
        ((projr (Line_example ''bus''))
           \<lparr>angle_limits := Some \<lparr>min_v = 5, max_v = 10\<rparr>\<rparr>)) ''angle_limits''
       = Some [(''min'', 5), (''max'', 10)]
   \<and> map_of (DCBranch_dump_limits
        (projr (TModelHVDCLine_new ((TModelHVDCLine_example_kwargs ''bus'')
           \<lparr>TModelHVDCLine_kw.kw_rating_down := Given (Some (- 80))\<rparr>))))
        ''active_power_limits_from'' = None
   \<and> DCBranch_dump_limits
        (projr (TModelHVDCLine_new ((TModelHVDCLine_example_kwargs ''bus'')
           \<lparr>TModelHVDCLine_kw.kw_rating_down := Given (Some (- 80))\<rparr>))) = []
   \<and> DCBranch_dump_limits
        ((projr (TModelHVDCLine_new ((TModelHVDCLine_example_kwargs ''bus'')
           \<lparr>TModelHVDCLine_kw.kw_rating_down := Given (Some (- 80))\<rparr>)))
           \<lparr>active_power_limits_from := Some \<lparr>min_v = 5, max_v = 10\<rparr>,
            active_power_limits_to := Some \<lparr>min_v = 5, max_v = 10\<rparr>,
            reactive_power_limits_from := Some \<lparr>min_v = 5, max_v = 10\<rparr>,
            reactive_power_limits_to := Some \<lparr>min_v = 5, max_v = 10\<rparr>\<rparr>)
       = [(''active_power_limits_from'', [(''min'', 5), (''max'', 10)]),
          (''active_power_limits_to'', [(''min'', 5), (''max'', 10)]),
          (''reactive_power_limits_from'', [(''min'', 5), (''max'', 10)]),
          (''reactive_power_limits_to'', [(''min'', 5), (''max'', 10)])]"
proof -
  let ?mm = "\<lparr>min_v = 5, max_v = 10\<rparr>"
  let ?ac0 = "projr (Line_example ''bus'')"
  let ?ac1 = "?ac0\<lparr>angle_limits := Some ?mm\<rparr>"
  let ?dc0 = "projr (TModelHVDCLine_new ((TModelHVDCLine_example_kwargs ''bus'')
                \<lparr>TModelHVDCLine_kw.kw_rating_down := Given (Some (- 80))\<rparr>))"
  let ?dc1 = "?dc0\<lparr>active_power_limits_from := Some ?mm, active_power_limits_to := Some ?mm,
                reactive_power_limits_from := Some ?mm, reactive_power_limits_to := Some ?mm\<rparr>"
  have absent: "angle_limits ?ac0 = None" "active_power_limits_from ?dc0 = None"
      "active_power_limits_to ?dc0 = None" "reactive_power_limits_from ?dc0 = None"
      "reactive_power_limits_to ?dc0 = None"
    by (simp_all add: Line_example_value TModelHVDCLine_valid_example)
  have present: "angle_limits ?ac1 = Some ?mm"
      "active_power_limits_from ?dc1 = Some ?mm" "active_power_limits_to ?dc1 = Some ?mm"
      "reactive_power_limits_from ?dc1 = Some ?mm" "reactive_power_limits_to ?dc1 = Some ?mm"
    by simp_all
  from range_fields_serialized [of ?ac0 ?mm ?dc0] absent
  have omitted: "map_of (ACBranch_dump_limits ?ac0) ''angle_limits'' = None"
      "map_of (DCBranch_dump_limits ?dc0) ''active_power_limits_from'' = None"
      "map_of (DCBranch_dump_limits ?dc0) ''active_power_limits_to'' = None"
      "map_of (DCBranch_dump_limits ?dc0) ''reactive_power_limits_from'' = None"
      "map_of (DCBranch_dump_limits ?dc0) ''reactive_power_limits_to'' = None"
    by blast+
  from range_fields_serialized [of ?ac1 ?mm ?dc1] present
  have emitted: "map_of (ACBranch_dump_limits ?ac1) ''angle_limits''
        = Some [(''min'', min_v ?mm), (''max'', max_v ?mm)]"
      "map_of (DCBranch_dump_limits ?dc1) ''active_power_limits_from''
        = Some [(''min'', min_v ?mm), (''max'', max_v ?mm)]"
      "map_of (DCBranch_dump_limits ?dc1) ''active_power_limits_to''
        = Some [(''min'', min_v ?mm), (''max'', max_v ?mm)]"
      "map_of (DCBranch_dump_limits ?dc1) ''reactive_power_limits_from''
        = Some [(''min'', min_v ?mm), (''max'', max_v ?mm)]"
      "map_of (DCBranch_dump_limits ?dc1) ''reactive_power_limits_to''
        = Some [(''min'', min_v ?mm), (''max'', max_v ?mm)]"
    by blast+
  have dumps: "ACBranch_dump_limits ?ac0 = []" "DCBranch_dump_limits ?dc0 = []"
      "DCBranch_dump_limits ?dc1 =
         [(''active_power_limits_from'', [(''min'', 5), (''max'', 10)]),
          (''active_power_limits_to'', [(''min'', 5), (''max'', 10)]),
          (''reactive_power_limits_from'', [(''min'', 5), (''max'', 10)]),
          (''reactive_power_limits_to'', [(''min'', 5), (''max'', 10)])]"
    by (simp_all add: absent ACBranch_dump_limits_def DCBranch_dump_limits_def emit_field_def
        serialize_angle_limits_def
        serialize_active_power_limits_from_def serialize_active_power_limits_to_def
        serialize_reactive_power_limits_from_def serialize_reactive_power_limits_to_def)
  from absent(1) omitted(1,2) emitted(1) dumps show ?thesis by simp
qed

text \<open>
  C3. Every \<^verbatim>\<open>MinMax\<close> that its constructor returns has \<open>min \<le> max\<close>;
  \<^verbatim>\<open>MinMax(min=10, max=5)\<close> fails with a range violation, and
  \<^verbatim>\<open>MinMax(min=5, max=10)\<close> succeeds and serializes to \<open>{"min": 5, "max": 10}\<close>.
\<close>

theorem MinMax_ordered:
  "(MinMax_new lo hi = Inr mm \<longrightarrow> min_v mm \<le> max_v mm)
   \<and> MinMax_new 10 5 = Inl [RangeViolationError]
   \<and> (\<exists>mm'. MinMax_new 5 10 = Inr mm'
         \<and> serialize_angle_limits self (Some mm') = Some [(''min'', 5), (''max'', 10)])"
  by (auto simp: MinMax_new_def serialize_angle_limits_def split: if_splits)

theorem MinMax_ordered_witness:
  "MinMax_new 5 10 = Inr \<lparr>min_v = 5, max_v = 10\<rparr>
   \<and> min_v \<lparr>min_v = 5, max_v = 10\<rparr> \<le> max_v \<lparr>min_v = 5, max_v = 10\<rparr>"
proof -
  have built: "MinMax_new 5 10 = Inr \<lparr>min_v = 5, max_v = 10\<rparr>"
    by (simp add: MinMax_new_def)
  from MinMax_ordered [of 5 10 "\<lparr>min_v = 5, max_v = 10\<rparr>"] built
  show ?thesis by blast
qed

text \<open>
  C4. In every \<^verbatim>\<open>MonitoredLine\<close> and every \<^verbatim>\<open>TModelHVDCLine\<close> that was
  constructed, \<^verbatim>\<open>rating_up\<close> is at least zero and \<^verbatim>\<open>rating_down\<close> is at most
  zero whenever the field is present; constructing a \<^verbatim>\<open>MonitoredLine\<close> with
  \<^verbatim>\<open>rating_down\<close> of magnitude 50 fails with a sign violation for that field,
  whatever the other arguments are.
\<close>

theorem rating_up_down_signs:
  "(MonitoredLine_new kw = Inr l \<longrightarrow>
      (\<forall>q. MonitoredLine.rating_up l = Some q \<longrightarrow> 0 \<le> magnitude q)
      \<and> (\<forall>q. MonitoredLine.rating_down l = Some q \<longrightarrow> magnitude q \<le> 0))
   \<and> (TModelHVDCLine_new kw' = Inr l' \<longrightarrow>
      (\<forall>v. TModelHVDCLine.rating_up l' = Some v \<longrightarrow> 0 \<le> v)
      \<and> (\<forall>v. TModelHVDCLine.rating_down l' = Some v \<longrightarrow> v \<le> 0))
   \<and> (MonitoredLine_kw.kw_rating_down kw50 = Given (Some q50) \<and> magnitude q50 = 50 \<longrightarrow>
      (\<exists>es. MonitoredLine_new kw50 = Inl es \<and> SignConstraintError ''rating_down'' \<in> set es))"
proof (intro conjI impI allI)
  fix q assume "MonitoredLine_new kw = Inr l" and "MonitoredLine.rating_up l = Some q"
  then show "0 \<le> magnitude q" by (rule MonitoredLine_invariant(4))
next
  fix q assume "MonitoredLine_new kw = Inr l" and "MonitoredLine.rating_down l = Some q"
  then show "magnitude q \<le> 0" by (rule MonitoredLine_invariant(5))
next
  fix v assume "TModelHVDCLine_new kw' = Inr l'" and "TModelHVDCLine.rating_up l' = Some v"
  then show "0 \<le> v" by (rule TModelHVDCLine_invariant(2))
next
  fix v assume "TModelHVDCLine_new kw' = Inr l'" and "TModelHVDCLine.rating_down l' = Some v"
  then show "v \<le> 0" by (rule TModelHVDCLine_invariant(3))
next
  assume "MonitoredLine_kw.kw_rating_down kw50 = Given (Some q50) \<and> magnitude q50 = 50"
  then have "SignConstraintError ''rating_down'' \<in> set (MonitoredLine_errors kw50)"
    by (simp add: MonitoredLine_errors_rating_down)
  then show "\<exists>es. MonitoredLine_new kw50 = Inl es \<and> SignConstraintError ''rating_down'' \<in> set es"
    by (rule MonitoredLine_new_fails)
qed

theorem rating_up_down_signs_witness:
  "(\<exists>l. MonitoredLine_new (MonitoredLine_example_kwargs ''bus'') = Inr l
      \<and> MonitoredLine.rating_up l = Some (ActivePower 100 ''MW'')
      \<and> 0 \<le> magnitude (ActivePower 100 ''MW'')
      \<and> MonitoredLine.rating_down l = Some (ActivePower (- 100) ''MW'')
      \<and> magnitude (ActivePower (- 100) ''MW'') \<le> 0)
   \<and> (\<exists>l. TModelHVDCLine_new
         ((TModelHVDCLine_example_kwargs ''bus'')
            \<lparr>TModelHVDCLine_kw.kw_rating_down := Given (Some (- 80))\<rparr>) = Inr l
      \<and> TModelHVDCLine.rating_up l = Some 100 \<and> (0::real) \<le> 100
      \<and> TModelHVDCLine.rating_down l = Some (- 80) \<and> (- 80::real) \<le> 0)
   \<and> MonitoredLine_kw.kw_rating_down
        ((MonitoredLine_example_kwargs ''bus'')
           \<lparr>MonitoredLine_kw.kw_rating_down := Given (Some (ActivePower 50 ''MW''))\<rparr>)
      = Given (Some (ActivePower 50 ''MW''))
   \<and> magnitude (ActivePower 50 ''MW'') = 50
   \<and> (\<exists>es. MonitoredLine_new
         ((MonitoredLine_example_kwargs ''bus'')
            \<lparr>MonitoredLine_kw.kw_rating_down := Given (Some (ActivePower 50 ''MW''))\<rparr>) = Inl es
      \<and> SignConstraintError ''rating_down'' \<in> set es)"
proof -
  let ?kw = "MonitoredLine_example_kwargs ''bus''"
  let ?kw' = "(TModelHVDCLine_example_kwargs ''bus'')
                \<lparr>TModelHVDCLine_kw.kw_rating_down := Given (Some (- 80))\<rparr>"
  let ?kw50 = "?kw\<lparr>MonitoredLine_kw.kw_rating_down := Given (Some (ActivePower 50 ''MW''))\<rparr>"
  obtain l where l: "MonitoredLine_new ?kw = Inr l"
      "MonitoredLine.rating_up l = Some (ActivePower 100 ''MW'')"
      "MonitoredLine.rating_down l = Some (ActivePower (- 100) ''MW'')"
    using MonitoredLine_example_value [of "''bus''"]
    by (simp add: MonitoredLine_example_def ActivePower_def)
  obtain l' where l': "TModelHVDCLine_new ?kw' = Inr l'"
      "TModelHVDCLine.rating_up l' = Some 100" "TModelHVDCLine.rating_down l' = Some (- 80)"
    by (simp add: TModelHVDCLine_valid_example)
  have given: "MonitoredLine_kw.kw_rating_down ?kw50 = Given (Some (ActivePower 50 ''MW''))"
    and fifty: "magnitude (ActivePower 50 ''MW'') = 50"
    by (simp_all add: ActivePower_def)
  from rating_up_down_signs [of ?kw l ?kw' l' ?kw50 "ActivePower 50 ''MW''"] l l' given fifty
  show ?thesis by auto
qed

text \<open>
  C5. \<^verbatim>\<open>AreaInterchange\<close> requires \<^verbatim>\<open>max_power_flow\<close> and
  \<^verbatim>\<open>min_power_flow\<close>: leaving either out fails with a missing-field error. Every
  constructed instance has \<open>max_power_flow \<ge> 0\<close> and \<open>min_power_flow \<le> 0\<close>, and passing
  \<^verbatim>\<open>max_power_flow\<close> of magnitude \<open>-10\<close> fails with a sign violation for that field.
\<close>

theorem AreaInterchange_flow_bounds:
  "(kw_max_power_flow kw1 = Omitted \<longrightarrow>
      (\<exists>es. AreaInterchange_new kw1 = Inl es \<and> MissingFieldError ''max_power_flow'' \<in> set es))
   \<and> (kw_min_power_flow kw2 = Omitted \<longrightarrow>
      (\<exists>es. AreaInterchange_new kw2 = Inl es \<and> MissingFieldError ''min_power_flow'' \<in> set es))
   \<and> (AreaInterchange_new kw = Inr a \<longrightarrow>
      0 \<le> magnitude (max_power_flow a) \<and> magnitude (min_power_flow a) \<le> 0)
   \<and> (kw_max_power_flow kw3 = Given q \<and> magnitude q = - 10 \<longrightarrow>
      (\<exists>es. AreaInterchange_new kw3 = Inl es \<and> SignConstraintError ''max_power_flow'' \<in> set es))"
proof (intro conjI impI)
  assume "kw_max_power_flow kw1 = Omitted"
  then show "\<exists>es. AreaInterchange_new kw1 = Inl es \<and> MissingFieldError ''max_power_flow'' \<in> set es"
    by (intro AreaInterchange_new_fails AreaInterchange_errors_missing(1))
next
  assume "kw_min_power_flow kw2 = Omitted"
  then show "\<exists>es. AreaInterchange_new kw2 = Inl es \<and> MissingFieldError ''min_power_flow'' \<in> set es"
    by (intro AreaInterchange_new_fails AreaInterchange_errors_missing(2))
next
  assume "AreaInterchange_new kw = Inr a"
  then show "0 \<le> magnitude (max_power_flow a)" and "magnitude (min_power_flow a) \<le> 0"
    by (rule AreaInterchange_invariant)+
next
  assume "kw_max_power_flow kw3 = Given q \<and> magnitude q = - 10"
  then have "SignConstraintError ''max_power_flow'' \<in> set (AreaInterchange_errors kw3)"
    by (simp add: AreaInterchange_errors_negative_max)
  then show "\<exists>es. AreaInterchange_new kw3 = Inl es \<and> SignConstraintError ''max_power_flow'' \<in> set es"
    by (rule AreaInterchange_new_fails)
qed

theorem AreaInterchange_flow_bounds_witness:
  "kw_max_power_flow ((AreaInterchange_example_kwargs ''area'')\<lparr>kw_max_power_flow := Omitted\<rparr>) = Omitted
   \<and> AreaInterchange_new ((AreaInterchange_example_kwargs ''area'')\<lparr>kw_max_power_flow := Omitted\<rparr>)
       = Inl [MissingFieldError ''max_power_flow'']
   \<and> kw_min_power_flow ((AreaInterchange_example_kwargs ''area'')\<lparr>kw_min_power_flow := Omitted\<rparr>) = Omitted
   \<and> AreaInterchange_new ((AreaInterchange_example_kwargs ''area'')\<lparr>kw_min_power_flow := Omitted\<rparr>)
       = Inl [MissingFieldError ''min_power_flow'']
   \<and> (\<exists>a. AreaInterchange_new (AreaInterchange_example_kwargs ''area'') = Inr a
         \<and> magnitude (max_power_flow a) = 100 \<and> magnitude (min_power_flow a) = - 100)
   \<and> kw_max_power_flow
        ((AreaInterchange_example_kwargs ''area'')\<lparr>kw_max_power_flow := Given (ActivePower (- 10) ''MW'')\<rparr>)
       = Given (ActivePower (- 10) ''MW'')
   \<and> magnitude (ActivePower (- 10) ''MW'') = - 10
   \<and> AreaInterchange_new
        ((AreaInterchange_example_kwargs ''area'')\<lparr>kw_max_power_flow := Given (ActivePower (- 10) ''MW'')\<rparr>)
       = Inl [SignConstraintError ''max_power_flow'']"
proof -
  let ?kw = "AreaInterchange_example_kwargs ''area''"
  let ?kw1 = "?kw\<lparr>kw_max_power_flow := Omitted\<rparr>"
  let ?kw2 = "?kw\<lparr>kw_min_power_flow := Omitted\<rparr>"
  let ?kw3 = "?kw\<lparr>kw_max_power_flow := Given (ActivePower (- 10) ''MW'')\<rparr>"
  have e1: "AreaInterchange_new ?kw1 = Inl [MissingFieldError ''max_power_flow'']"
    and e2: "AreaInterchange_new ?kw2 = Inl [MissingFieldError ''min_power_flow'']"
    and e3: "AreaInterchange_new ?kw3 = Inl [SignConstraintError ''max_power_flow'']"
    by (simp_all add: AreaInterchange_example_kwargs_def class_defs validator_defs ActivePower_def)
  obtain a where a: "AreaInterchange_new ?kw = Inr a"
      "magnitude (max_power_flow a) = 100" "magnitude (min_power_flow a) = - 100"
    using AreaInterchange_example_value [of "''area''"]
    by (simp add: AreaInterchange_example_def)
  have h: "kw_max_power_flow ?kw1 = Omitted" "kw_min_power_flow ?kw2 = Omitted"
      "kw_max_power_flow ?kw3 = Given (ActivePower (- 10) ''MW'')"
      "magnitude (ActivePower (- 10) ''MW'') = - 10"
    by (simp_all add: ActivePower_def)
  from AreaInterchange_flow_bounds [of ?kw1 ?kw2 ?kw a ?kw3 "ActivePower (- 10) ''MW''"]
    e1 e2 e3 a h
  show ?thesis by auto
qed

text \<open>
  C6. In every constructed \<^verbatim>\<open>ACBranch\<close>, \<^verbatim>\<open>Line\<close>, \<^verbatim>\<open>Transformer2W\<close> and
  \<^verbatim>\<open>MonitoredLine\<close>, each of \<^verbatim>\<open>rating\<close>, \<^verbatim>\<open>active_power_flow\<close> and
  \<^verbatim>\<open>reactive_power_flow\<close> is at least zero when it is present, and so is
  \<^verbatim>\<open>active_power_flow\<close> in every constructed \<^verbatim>\<open>DCBranch\<close> and
  \<^verbatim>\<open>TModelHVDCLine\<close> (the DC classes declare neither \<^verbatim>\<open>rating\<close> nor
  \<^verbatim>\<open>reactive_power_flow\<close>, so these are never present there). Passing a negative
  value for any of these fields makes the construction fail, with a sign violation for
  the field among the failures.
\<close>

theorem flows_nonnegative:
  "(ACBranch_new kw = Inr b \<or> Line_new kw = Inr b \<or> Transformer2W_new kw = Inr b \<longrightarrow>
      (\<forall>q. rating b = Some q \<longrightarrow> 0 \<le> magnitude q)
      \<and> (\<forall>q. ACBranch.active_power_flow b = Some q \<longrightarrow> 0 \<le> magnitude q)
      \<and> (\<forall>q. reactive_power_flow b = Some q \<longrightarrow> 0 \<le> magnitude q))
   \<and> (MonitoredLine_new kwm = Inr m \<longrightarrow>
      (\<forall>q. rating m = Some q \<longrightarrow> 0 \<le> magnitude q)
      \<and> (\<forall>q. ACBranch.active_power_flow m = Some q \<longrightarrow> 0 \<le> magnitude q)
      \<and> (\<forall>q. reactive_power_flow m = Some q \<longrightarrow> 0 \<le> magnitude q))
   \<and> (DCBranch_new kwd = Inr d \<longrightarrow>
      (\<forall>q. DCBranch.active_power_flow d = Some q \<longrightarrow> 0 \<le> magnitude q))
   \<and> (TModelHVDCLine_new kwt = Inr t \<longrightarrow>
      (\<forall>q. DCBranch.active_power_flow t = Some q \<longrightarrow> 0 \<le> magnitude q))
   \<and> (magnitude n < 0 \<longrightarrow>
      (kw_rating kw' = Given (Some n) \<longrightarrow>
         (\<exists>es. SignConstraintError ''rating'' \<in> set es \<and> ACBranch_new kw' = Inl es
            \<and> Line_new kw' = Inl es \<and> Transformer2W_new kw' = Inl es))
      \<and> (ACBranch_kw.kw_active_power_flow kw' = Given (Some n) \<longrightarrow>
         (\<exists>es. SignConstraintError ''active_power_flow'' \<in> set es \<and> ACBranch_new kw' = Inl es
            \<and> Line_new kw' = Inl es \<and> Transformer2W_new kw' = Inl es))
      \<and> (kw_reactive_power_flow kw' = Given (Some n) \<longrightarrow>
         (\<exists>es. SignConstraintError ''reactive_power_flow'' \<in> set es \<and> ACBranch_new kw' = Inl es
            \<and> Line_new kw' = Inl es \<and> Transformer2W_new kw' = Inl es))
      \<and> (kw_rating kwm' = Given (Some n) \<longrightarrow>
         (\<exists>es. SignConstraintError ''rating'' \<in> set es \<and> MonitoredLine_new kwm' = Inl es))
      \<and> (ACBranch_kw.kw_active_power_flow kwm' = Given (Some n) \<longrightarrow>
         (\<exists>es. SignConstraintError ''active_power_flow'' \<in> set es
            \<and> MonitoredLine_new kwm' = Inl es))
      \<and> (kw_reactive_power_flow kwm' = Given (Some n) \<longrightarrow>
         (\<exists>es. SignConstraintError ''reactive_power_flow'' \<in> set es
            \<and> MonitoredLine_new kwm' = Inl es))
      \<and> (DCBranch_kw.kw_active_power_flow kwd' = Given (Some n) \<longrightarrow>
         (\<exists>es. SignConstraintError ''active_power_flow'' \<in> set es \<and> DCBranch_new kwd' = Inl es))
      \<and> (DCBranch_kw.kw_active_power_flow kwt' = Given (Some n) \<longrightarrow>
         (\<exists>es. SignConstraintError ''active_power_flow'' \<in> set es
            \<and> TModelHVDCLine_new kwt' = Inl es)))"
proof -
  have ac: "ACBranch_new kw = Inr b \<or> Line_new kw = Inr b \<or> Transformer2W_new kw = Inr b \<longrightarrow>
      (\<forall>q. rating b = Some q \<longrightarrow> 0 \<le> magnitude q)
      \<and> (\<forall>q. ACBranch.active_power_flow b = Some q \<longrightarrow> 0 \<le> magnitude q)
      \<and> (\<forall>q. reactive_power_flow b = Some q \<longrightarrow> 0 \<le> magnitude q)"
    using ACBranch_invariant [of kw b]
    by (simp add: Line_new_def Transformer2W_new_def)
  have ml: "MonitoredLine_new kwm = Inr m \<longrightarrow>
      (\<forall>q. rating m = Some q \<longrightarrow> 0 \<le> magnitude q)
      \<and> (\<forall>q. ACBranch.active_power_flow m = Some q \<longrightarrow> 0 \<le> magnitude q)
      \<and> (\<forall>q. reactive_power_flow m = Some q \<longrightarrow> 0 \<le> magnitude q)"
    using MonitoredLine_invariant(1-3) [of kwm m] by blast
  have dc: "DCBranch_new kwd = Inr d \<longrightarrow>
      (\<forall>q. DCBranch.active_power_flow d = Some q \<longrightarrow> 0 \<le> magnitude q)"
    using DCBranch_invariant [of kwd d] by blast
  have tm: "TModelHVDCLine_new kwt = Inr t \<longrightarrow>
      (\<forall>q. DCBranch.active_power_flow t = Some q \<longrightarrow> 0 \<le> magnitude q)"
    using TModelHVDCLine_invariant(1) [of kwt t] by blast
  have ac_fails: "\<exists>es. e \<in> set es \<and> ACBranch_new kw' = Inl es
            \<and> Line_new kw' = Inl es \<and> Transformer2W_new kw' = Inl es"
    if "e \<in> set (ACBranch_errors kw')" for e
    using ACBranch_new_fails [OF that] by (auto simp: Line_new_def Transformer2W_new_def)
  have ml_fails: "\<exists>es. e \<in> set es \<and> MonitoredLine_new kwm' = Inl es"
    if "e \<in> set (ACBranch_errors kwm')" for e
    using MonitoredLine_new_fails [OF MonitoredLine_errors_ACBranch [OF that]] by blast
  have dc_fails: "\<exists>es. e \<in> set es \<and> DCBranch_new kwd' = Inl es"
    if "e \<in> set (DCBranch_errors kwd')" for e
    using DCBranch_new_fails [OF that] by blast
  have tm_fails: "\<exists>es. e \<in> set es \<and> TModelHVDCLine_new kwt' = Inl es"
    if "e \<in> set (DCBranch_errors kwt')" for e
    using TModelHVDCLine_new_fails [OF TModelHVDCLine_errors_DCBranch [OF that]] by blast
  have neg: "magnitude n < 0 \<longrightarrow>
      (kw_rating kw' = Given (Some n) \<longrightarrow>
         (\<exists>es. SignConstraintError ''rating'' \<in> set es \<and> ACBranch_new kw' = Inl es
            \<and> Line_new kw' = Inl es \<and> Transformer2W_new kw' = Inl es))
      \<and> (ACBranch_kw.kw_active_power_flow kw' = Given (Some n) \<longrightarrow>
         (\<exists>es. SignConstraintError ''active_power_flow'' \<in> set es \<and> ACBranch_new kw' = Inl es
            \<and> Line_new kw' = Inl es \<and> Transformer2W_new kw' = Inl es))
      \<and> (kw_reactive_power_flow kw' = Given (Some n) \<longrightarrow>
         (\<exists>es. SignConstraintError ''reactive_power_flow'' \<in> set es \<and> ACBranch_new kw' = Inl es
            \<and> Line_new kw' = Inl es \<and> Transformer2W_new kw' = Inl es))
      \<and> (kw_rating kwm' = Given (Some n) \<longrightarrow>
         (\<exists>es. SignConstraintError ''rating'' \<in> set es \<and> MonitoredLine_new kwm' = Inl es))
      \<and> (ACBranch_kw.kw_active_power_flow kwm' = Given (Some n) \<longrightarrow>
         (\<exists>es. SignConstraintError ''active_power_flow'' \<in> set es
            \<and> MonitoredLine_new kwm' = Inl es))
      \<and> (kw_reactive_power_flow kwm' = Given (Some n) \<longrightarrow>
         (\<exists>es. SignConstraintError ''reactive_power_flow'' \<in> set es
            \<and> MonitoredLine_new kwm' = Inl es))
      \<and> (DCBranch_kw.kw_active_power_flow kwd' = Given (Some n) \<longrightarrow>
         (\<exists>es. SignConstraintError ''active_power_flow'' \<in> set es \<and> DCBranch_new kwd' = Inl es))
      \<and> (DCBranch_kw.kw_active_power_flow kwt' = Given (Some n) \<longrightarrow>
         (\<exists>es. SignConstraintError ''active_power_flow'' \<in> set es
            \<and> TModelHVDCLine_new kwt' = Inl es))"
    by (intro impI conjI ac_fails ml_fails dc_fails tm_fails
        ACBranch_errors_negative DCBranch_errors_negative)
  from ac ml dc tm neg show ?thesis by (intro conjI)
qed

theorem flows_nonnegative_witness:
  "(\<exists>b. ACBranch_new (Line_example_kwargs ''bus'') = Inr b
      \<and> rating b = Some (ActivePower 100 ''MW'') \<and> 0 \<le> magnitude (ActivePower 100 ''MW''))
   \<and> (\<exists>m. MonitoredLine_new (MonitoredLine_example_kwargs ''bus'') = Inr m
      \<and> rating m = Some (ActivePower 100 ''MW''))
   \<and> (\<exists>d. DCBranch_new
         (DCBranch_kw.truncate ((TModelHVDCLine_example_kwargs ''bus'')
            \<lparr>DCBranch_kw.kw_active_power_flow := Given (Some (ActivePower 5 ''MW''))\<rparr>)) = Inr d
      \<and> DCBranch.active_power_flow d = Some (ActivePower 5 ''MW'')
      \<and> 0 \<le> magnitude (ActivePower 5 ''MW''))
   \<and> (\<exists>t. TModelHVDCLine_new
         ((TModelHVDCLine_example_kwargs ''bus'')
            \<lparr>DCBranch_kw.kw_active_power_flow := Given (Some (ActivePower 5 ''MW'')),
             TModelHVDCLine_kw.kw_rating_down := Given (Some (- 80))\<rparr>) = Inr t
      \<and> DCBranch.active_power_flow t = Some (ActivePower 5 ''MW''))
   \<and> magnitude (ActivePower (- 1) ''MW'') < 0
   \<and> ACBranch_new
        ((Line_example_kwargs ''bus'')
           \<lparr>kw_rating := Given (Some (ActivePower (- 1) ''MW'')),
            ACBranch_kw.kw_active_power_flow := Given (Some (ActivePower (- 1) ''MW'')),
            kw_reactive_power_flow := Given (Some (ActivePower (- 1) ''MW''))\<rparr>)
       = Inl [SignConstraintError ''rating'', SignConstraintError ''active_power_flow'',
              SignConstraintError ''reactive_power_flow'']
   \<and> MonitoredLine_new
        ((MonitoredLine_example_kwargs ''bus'')
           \<lparr>kw_rating := Given (Some (ActivePower (- 1) ''MW'')),
            ACBranch_kw.kw_active_power_flow := Given (Some (ActivePower (- 1) ''MW'')),
            kw_reactive_power_flow := Given (Some (ActivePower (- 1) ''MW''))\<rparr>)
       = Inl [SignConstraintError ''rating'', SignConstraintError ''active_power_flow'',
              SignConstraintError ''reactive_power_flow'']
   \<and> DCBranch_new
        (DCBranch_kw.truncate ((TModelHVDCLine_example_kwargs ''bus'')
           \<lparr>DCBranch_kw.kw_active_power_flow := Given (Some (ActivePower (- 1) ''MW''))\<rparr>))
       = Inl [SignConstraintError ''active_power_flow'']
   \<and> TModelHVDCLine_new
        ((TModelHVDCLine_example_kwargs ''bus'')
           \<lparr>DCBranch_kw.kw_active_power_flow := Given (Some (ActivePower (- 1) ''MW'')),
            TModelHVDCLine_kw.kw_rating_down := Given (Some (- 80))\<rparr>)
       = Inl [SignConstraintError ''active_power_flow'']"
proof -
  let ?n = "ActivePower (- 1) ''MW''"
  let ?p = "ActivePower 5 ''MW''"
  let ?kw = "Line_example_kwargs ''bus''"
  let ?kwm = "MonitoredLine_example_kwargs ''bus''"
  let ?kwd = "DCBranch_kw.truncate ((TModelHVDCLine_example_kwargs ''bus'')
                \<lparr>DCBranch_kw.kw_active_power_flow := Given (Some ?p)\<rparr>)"
  let ?kwt = "(TModelHVDCLine_example_kwargs ''bus'')
                \<lparr>DCBranch_kw.kw_active_power_flow := Given (Some ?p),
                 TModelHVDCLine_kw.kw_rating_down := Given (Some (- 80))\<rparr>"
  let ?kw' = "?kw\<lparr>kw_rating := Given (Some ?n),
                ACBranch_kw.kw_active_power_flow := Given (Some ?n),
                kw_reactive_power_flow := Given (Some ?n)\<rparr>"
  let ?kwm' = "?kwm\<lparr>kw_rating := Given (Some ?n),
                ACBranch_kw.kw_active_power_flow := Given (Some ?n),
                kw_reactive_power_flow := Given (Some ?n)\<rparr>"
  let ?kwd' = "DCBranch_kw.truncate ((TModelHVDCLine_example_kwargs ''bus'')
                \<lparr>DCBranch_kw.kw_active_power_flow := Given (Some ?n)\<rparr>)"
  let ?kwt' = "(TModelHVDCLine_example_kwargs ''bus'')
                \<lparr>DCBranch_kw.kw_active_power_flow := Given (Some ?n),
                 TModelHVDCLine_kw.kw_rating_down := Given (Some (- 80))\<rparr>"
  note kwargs = Line_example_kwargs_def MonitoredLine_example_kwargs_def
    TModelHVDCLine_example_kwargs_def DCBranch_kw.defs ActivePower_def Percentage_def
  obtain b where b: "ACBranch_new ?kw = Inr b" "rating b = Some (ActivePower 100 ''MW'')"
    using Line_example_value [of "''bus''"]
    by (simp add: Line_example_def Line_new_def ActivePower_def)
  obtain m where m: "MonitoredLine_new ?kwm = Inr m" "rating m = Some (ActivePower 100 ''MW'')"
    using MonitoredLine_example_value [of "''bus''"]
    by (simp add: MonitoredLine_example_def ActivePower_def)
  obtain d where d: "DCBranch_new ?kwd = Inr d" "DCBranch.active_power_flow d = Some ?p"
    by (simp add: kwargs class_defs validator_defs)
  obtain t where t: "TModelHVDCLine_new ?kwt = Inr t" "DCBranch.active_power_flow t = Some ?p"
    by (simp add: kwargs class_defs validator_defs)
  have signs: "magnitude ?n < 0" "0 \<le> magnitude (ActivePower 100 ''MW'')" "0 \<le> magnitude ?p"
    by (simp_all add: ActivePower_def)
  have given: "kw_rating ?kw' = Given (Some ?n)"
      "ACBranch_kw.kw_active_power_flow ?kw' = Given (Some ?n)"
      "kw_reactive_power_flow ?kw' = Given (Some ?n)"
      "kw_rating ?kwm' = Given (Some ?n)"
      "ACBranch_kw.kw_active_power_flow ?kwm' = Given (Some ?n)"
      "kw_reactive_power_flow ?kwm' = Given (Some ?n)"
      "DCBranch_kw.kw_active_power_flow ?kwd' = Given (Some ?n)"
      "DCBranch_kw.kw_active_power_flow ?kwt' = Given (Some ?n)"
    by (simp_all add: DCBranch_kw.defs)
  have failures:
      "ACBranch_new ?kw' = Inl [SignConstraintError ''rating'',
         SignConstraintError ''active_power_flow'', SignConstraintError ''reactive_power_flow'']"
      "MonitoredLine_new ?kwm' = Inl [SignConstraintError ''rating'',
         SignConstraintError ''active_power_flow'', SignConstraintError ''reactive_power_flow'']"
      "DCBranch_new ?kwd' = Inl [SignConstraintError ''active_power_flow'']"
      "TModelHVDCLine_new ?kwt' = Inl [SignConstraintError ''active_power_flow'']"
    by (simp_all add: kwargs class_defs validator_defs)
  from flows_nonnegative [of ?kw b ?kwm m ?kwd d ?kwt t ?n ?kw' ?kwm' ?kwd' ?kwt']
    b m d t signs given failures
  show ?thesis by blast
qed

text \<open>
  C7. Constructing an \<^verbatim>\<open>ACBranch\<close> without \<^verbatim>\<open>from_bus\<close> fails with a
  missing-field error for \<^verbatim>\<open>from_bus\<close>, and the call returns no instance at all.
\<close>

theorem ACBranch_requires_from_bus:
  assumes "ACBranch_kw.kw_from_bus kw = Omitted"
  shows "(\<exists>es. ACBranch_new kw = Inl es \<and> MissingFieldError ''from_bus'' \<in> set es)
         \<and> (\<forall>b. ACBranch_new kw \<noteq> Inr b)"
proof -
  from ACBranch_new_fails [OF ACBranch_errors_missing_from_bus [OF assms]]
  obtain es where "ACBranch_new kw = Inl es" and "MissingFieldError ''from_bus'' \<in> set es"
    by blast
  then show ?thesis by auto
qed

theorem ACBranch_requires_from_bus_witness:
  "ACBranch_kw.kw_from_bus ((Line_example_kwargs ''bus'')\<lparr>ACBranch_kw.kw_from_bus := Omitted\<rparr>) = Omitted
   \<and> ACBranch_new ((Line_example_kwargs ''bus'')\<lparr>ACBranch_kw.kw_from_bus := Omitted\<rparr>)
       = Inl [MissingFieldError ''from_bus'']"
proof -
  let ?kw = "(Line_example_kwargs ''bus'')\<lparr>ACBranch_kw.kw_from_bus := Omitted\<rparr>"
  have omitted: "ACBranch_kw.kw_from_bus ?kw = Omitted" by simp
  have "ACBranch_errors ?kw = [MissingFieldError ''from_bus'']"
    by (simp add: Line_example_kwargs_def class_defs validator_defs ActivePower_def)
  then have "ACBranch_new ?kw = Inl [MissingFieldError ''from_bus'']"
    by (simp add: ACBranch_new_def finish_validation_Inl)
  with omitted ACBranch_requires_from_bus [OF omitted] show ?thesis by simp
qed

text \<open>
  C8. \<^verbatim>\<open>MonitoredLine.example()\<close> constructs an instance, whose \<^verbatim>\<open>rating_up\<close> is
  100 MW, \<^verbatim>\<open>rating_down\<close> is -100 MW, \<^verbatim>\<open>losses\<close> is 10 % and \<^verbatim>\<open>rating\<close>
  is 100 MW.
\<close>

theorem MonitoredLine_example_fields:
  "\<exists>l. MonitoredLine_example b = Inr l
     \<and> MonitoredLine.rating_up l = Some \<lparr>magnitude = 100, units = ''MW''\<rparr>
     \<and> MonitoredLine.rating_down l = Some \<lparr>magnitude = - 100, units = ''MW''\<rparr>
     \<and> MonitoredLine.losses l = Some \<lparr>magnitude = 10, units = ''%''\<rparr>
     \<and> rating l = Some \<lparr>magnitude = 100, units = ''MW''\<rparr>"
  by (simp add: MonitoredLine_example_value)

text \<open>
  C9. The four field serializers of \<^verbatim>\<open>DCBranch\<close> return the same result on every
  input, \<^verbatim>\<open>None\<close> included, whatever instance they are called on, and each of them
  agrees with \<^verbatim>\<open>ACBranch.serialize_angle_limits\<close>.
\<close>

theorem range_serializers_agree:
  "serialize_active_power_limits_from dc1 min_max = serialize_active_power_limits_to dc2 min_max
   \<and> serialize_active_power_limits_from dc1 min_max
       = serialize_reactive_power_limits_from dc3 min_max
   \<and> serialize_active_power_limits_from dc1 min_max
       = serialize_reactive_power_limits_to dc4 min_max
   \<and> serialize_active_power_limits_from dc1 min_max = serialize_angle_limits ac min_max
   \<and> serialize_active_power_limits_to dc2 min_max = serialize_angle_limits ac min_max
   \<and> serialize_reactive_power_limits_from dc3 min_max = serialize_angle_limits ac min_max
   \<and> serialize_reactive_power_limits_to dc4 min_max = serialize_angle_limits ac min_max"
  by (simp add: serialize_active_power_limits_from_def serialize_active_power_limits_to_def
      serialize_reactive_power_limits_from_def serialize_reactive_power_limits_to_def
      serialize_angle_limits_def)



end
